theory Spec2Isabelle
  imports Complex_Main
begin

section \<open>Conventions of the embedding\<close>

text \<open>
  The program is \<^verbatim>\<open>src/PARAMOUNT.py\<close>: the classes \<^verbatim>\<open>Base\<close>, \<^verbatim>\<open>POD\<close> and \<^verbatim>\<open>DMD\<close>.
  Floating-point numbers are idealised: a \<^verbatim>\<open>float64\<close> is a \<^typ>\<open>real\<close>, a
  \<^verbatim>\<open>complex128\<close> is a \<^typ>\<open>complex\<close>, and arithmetic is exact. In the prediction, where
  the logarithm of an eigenvalue is \<^verbatim>\<open>nan\<close> or infinite, an entry that is not finite is
  \<open>None\<close> and the call returns as the source does. Elsewhere, where the source would go
  on computing with \<^verbatim>\<open>nan\<close> or \<^verbatim>\<open>inf\<close> (a division by a zero standard deviation, the
  reciprocal of a zero singular value, frames whose rows do not align), the model
  stops with the outcome \<open>NonFinite\<close>, which is not an exception of the source.

  An exception of the source is a value \<open>Inl e\<close>. The model does not keep the state a
  failed call has written before it failed.
\<close>

datatype error =
    TypeError         \<comment> \<open>an operand of the wrong type, such as \<^verbatim>\<open>None - int\<close>\<close>
  | ValueError        \<comment> \<open>a shape mismatch, a zero slice step, a frame of unknown width\<close>
  | IndexingError     \<comment> \<open>\<^verbatim>\<open>df[:, a:b]\<close> on a dask DataFrame, which only \<^verbatim>\<open>iloc\<close> supports\<close>
  | IndexError        \<comment> \<open>a list index out of range\<close>
  | AttributeError    \<comment> \<open>an attribute read before it was set\<close>
  | FileNotFoundError \<comment> \<open>an artifact read before it was written\<close>
  | ZeroDivisionError \<comment> \<open>a Python number divided by zero, a zero step of \<^verbatim>\<open>np.arange\<close>\<close>
  | LinAlgError       \<comment> \<open>raised by a linear-algebra routine of the library\<close>
  | NonFinite         \<comment> \<open>the source continues with nan or inf\<close>

subsection \<open>Matrices with their shape\<close>

text \<open>
  A two-dimensional array keeps its shape also when it has no row or no column, as
  \<^verbatim>\<open>np.zeros((0, 4))\<close> does: the shape is stored beside the rows.
\<close>

datatype 'a mat = Mat (nrows: nat) (ncols: nat) (rows: "'a list list")

definition take_cols :: "nat list \<Rightarrow> 'a mat \<Rightarrow> 'a mat" where
  \<comment> \<open>the columns at the positions \<open>idx\<close>, in that order\<close>
  "take_cols idx m = Mat (nrows m) (length idx) (map (\<lambda>r. map (\<lambda>j. r ! j) idx) (rows m))"

definition column :: "'a mat \<Rightarrow> nat \<Rightarrow> 'a list" where
  "column m j = map (\<lambda>r. r ! j) (rows m)"

text \<open>
  A dask DataFrame is a matrix cut into partitions, which are blocks of rows. The model
  keeps the values and the number of partitions, which is at least one;
  \<^verbatim>\<open>dd.read_parquet\<close> gives the frame the partitions the dataset was written with, and
  selecting columns, subtracting or adding frames of the same partitions, and writing a
  frame and reading it back all keep them. The labels of the rows are their positions.
\<close>

datatype 'a frame = DaskFrame (npartitions: nat) (to_dask_array: "'a mat")

subsection \<open>Python slices, as the positions they select\<close>

definition py_bound :: "nat \<Rightarrow> int \<Rightarrow> nat" where
  \<comment> \<open>a slice bound on an axis of length \<open>n\<close>: negative bounds count from the end, and
      every bound is clipped to the axis\<close>
  "py_bound n i = (if i < 0 then nat (max (int n + i) 0) else min (nat i) n)"

definition slice_idx :: "nat \<Rightarrow> int option \<Rightarrow> int option \<Rightarrow> nat list" where
  \<comment> \<open>\<^verbatim>\<open>[a:b]\<close> with step 1; \<open>None\<close> is an omitted bound\<close>
  "slice_idx n a b =
     [(case a of None \<Rightarrow> 0 | Some i \<Rightarrow> py_bound n i) ..<
      (case b of None \<Rightarrow> n | Some j \<Rightarrow> py_bound n j)]"

definition stride_idx :: "nat \<Rightarrow> int \<Rightarrow> error + nat list" where
  \<comment> \<open>\<^verbatim>\<open>[::k]\<close>: every k-th position from the first one; from the last one backwards
      when \<open>k\<close> is negative; a zero step raises\<close>
  "stride_idx n k =
     (if k = 0 then Inl ValueError
      else if 0 < k then Inr (filter (\<lambda>j. int j mod k = 0) [0..<n])
      else Inr (filter (\<lambda>j. int (n - 1 - j) mod (- k) = 0) (rev [0..<n])))"

definition py_int :: "rat \<Rightarrow> int" where
  \<comment> \<open>\<^verbatim>\<open>int(x)\<close> of a float: truncation towards zero\<close>
  "py_int x = (if 0 \<le> x then \<lfloor>x\<rfloor> else \<lceil>x\<rceil>)"

section \<open>Base: configuration and decimation\<close>

text \<open>
  The attributes of \<^verbatim>\<open>self\<close> that the decomposition reads. \<^verbatim>\<open>set_time\<close> and
  \<^verbatim>\<open>data_decimate\<close> both replace an absent \<^verbatim>\<open>data_cutoff\<close>, \<^verbatim>\<open>data_cutin\<close> or
  \<^verbatim>\<open>data_skip\<close> by \<^verbatim>\<open>None\<close> before they read it, so \<open>None\<close> stands for both. An absent
  \<^verbatim>\<open>dt\<close> or \<^verbatim>\<open>t0\<close> is \<open>None\<close>; reading it raises.
\<close>

record base =
  data_cutoff :: "rat option"
  data_cutin :: "rat option"
  data_skip :: "int option"
  dt :: "real option"
  t0 :: "real option"

definition set_data_cutin :: "base \<Rightarrow> rat option \<Rightarrow> base" where
  "set_data_cutin self c = self\<lparr>data_cutin := c\<rparr>"

definition set_data_cutoff :: "base \<Rightarrow> rat option \<Rightarrow> base" where
  "set_data_cutoff self c = self\<lparr>data_cutoff := c\<rparr>"

definition set_data_skip :: "base \<Rightarrow> int option \<Rightarrow> base" where
  "set_data_skip self k = self\<lparr>data_skip := k\<rparr>"

definition set_time :: "base \<Rightarrow> real \<Rightarrow> real \<Rightarrow> base" where
  "set_time self d t =
     (case data_skip self of
        Some k \<Rightarrow> self\<lparr>dt := Some (d * of_int k), t0 := Some t\<rparr>
      | None \<Rightarrow> self\<lparr>dt := Some d, t0 := Some t\<rparr>)"

text \<open>
  \<^verbatim>\<open>data_decimate\<close> receives a dask DataFrame (from \<^verbatim>\<open>svd_save_usv\<close>) or a dask array
  (from \<^verbatim>\<open>save_Atilde\<close> and \<^verbatim>\<open>save_modes\<close>). \<^verbatim>\<open>df[:, a:b]\<close> raises on a DataFrame; the
  source catches that and uses \<^verbatim>\<open>df.iloc[:, a:b]\<close>, which selects the same columns, for the
  cutoff, the cutin and the two one-column drops, but not for the stride.
\<close>

datatype kind = Frame | Array

definition cut_count :: "nat \<Rightarrow> rat \<Rightarrow> int" where
  \<comment> \<open>\<^verbatim>\<open>int(df.shape[1] * pct / 100)\<close>\<close>
  "cut_count n pct = py_int (of_nat n * pct / 100)"

definition apply_cutoff :: "base \<Rightarrow> 'a mat \<Rightarrow> 'a mat" where
  \<comment> \<open>lines 622 to 627: \<^verbatim>\<open>df[:, :cutoff]\<close>\<close>
  "apply_cutoff self df =
     (case data_cutoff self of
        None \<Rightarrow> df
      | Some c \<Rightarrow> take_cols (slice_idx (ncols df) None (Some (cut_count (ncols df) c))) df)"

definition apply_cutin :: "base \<Rightarrow> 'a mat \<Rightarrow> 'a mat" where
  \<comment> \<open>lines 629 to 634: \<^verbatim>\<open>df[:, cutin:]\<close>, with \<open>cutin\<close> computed from the columns that
      \<open>df\<close> has at this point\<close>
  "apply_cutin self df =
     (case data_cutin self of
        None \<Rightarrow> df
      | Some c \<Rightarrow> take_cols (slice_idx (ncols df) (Some (cut_count (ncols df) c)) None) df)"

definition apply_skip :: "base \<Rightarrow> kind \<Rightarrow> 'a mat \<Rightarrow> error + 'a mat" where
  \<comment> \<open>lines 636 to 637: \<^verbatim>\<open>df[:, :: self.data_skip]\<close>, outside any \<^verbatim>\<open>try\<close>\<close>
  "apply_skip self k df =
     (case data_skip self of
        None \<Rightarrow> Inr df
      | Some s \<Rightarrow>
          (case k of
             Frame \<Rightarrow> Inl IndexingError
           | Array \<Rightarrow>
               (case stride_idx (ncols df) s of
                  Inl e \<Rightarrow> Inl e
                | Inr idx \<Rightarrow> Inr (take_cols idx df))))"

definition drop_last_col :: "'a mat \<Rightarrow> 'a mat" where
  \<comment> \<open>\<^verbatim>\<open>df[:, :-1]\<close>\<close>
  "drop_last_col df = take_cols (slice_idx (ncols df) None (Some (- 1))) df"

definition drop_first_col :: "'a mat \<Rightarrow> 'a mat" where
  \<comment> \<open>\<^verbatim>\<open>df[:, 1:]\<close>\<close>
  "drop_first_col df = take_cols (slice_idx (ncols df) (Some 1) None) df"

definition data_decimate :: "base \<Rightarrow> kind \<Rightarrow> 'a mat \<Rightarrow> bool \<Rightarrow> bool \<Rightarrow> error + 'a mat" where
  "data_decimate self k df X1 X2 =
     (case apply_skip self k (apply_cutin self (apply_cutoff self df)) of
        Inl e \<Rightarrow> Inl e
      | Inr df3 \<Rightarrow>
          (let df4 = (if X1 then drop_last_col df3 else df3)
           in Inr (if X2 then drop_first_col df4 else df4)))"

section \<open>Base.correlate\<close>







section \<open>Linear algebra on matrices\<close>

definition map_mat :: "('a \<Rightarrow> 'b) \<Rightarrow> 'a mat \<Rightarrow> 'b mat" where
  "map_mat f m = Mat (nrows m) (ncols m) (map (map f) (rows m))"

definition transpose_mat :: "'a mat \<Rightarrow> 'a mat" where
  "transpose_mat m = Mat (ncols m) (nrows m) (map (column m) [0..<ncols m])"

definition matmul :: "'a::semiring_0 mat \<Rightarrow> 'a mat \<Rightarrow> error + 'a mat" where
  \<comment> \<open>\<^verbatim>\<open>da.matmul\<close>: the inner dimensions must agree\<close>
  "matmul A B =
     (if ncols A \<noteq> nrows B then Inl ValueError
      else Inr (Mat (nrows A) (ncols B)
                 (map (\<lambda>r. map (\<lambda>j. \<Sum>k\<leftarrow>[0..<ncols A]. r ! k * rows B ! k ! j) [0..<ncols B])
                    (rows A))))"

definition diag :: "'a::zero list \<Rightarrow> 'a mat" where
  "diag d = Mat (length d) (length d)
              (map (\<lambda>i. map (\<lambda>j. if i = j then d ! i else 0) [0..<length d]) [0..<length d])"

definition reciprocals :: "real list \<Rightarrow> error + real list" where
  \<comment> \<open>\<^verbatim>\<open>s.values**-1\<close>; the reciprocal of 0.0 is inf\<close>
  "reciprocals d = (if 0 \<in> set d then Inl NonFinite else Inr (map inverse d))"

definition zip_mat :: "('a \<Rightarrow> 'b \<Rightarrow> 'c) \<Rightarrow> 'a mat \<Rightarrow> 'b mat \<Rightarrow> 'c mat" where
  \<comment> \<open>an element-wise operation on two matrices of the same shape\<close>
  "zip_mat f A B = Mat (nrows A) (ncols A) (map (\<lambda>(r, r'). map (\<lambda>(x, y). f x y) (zip r r')) (zip (rows A) (rows B)))"

definition same_shape :: "'a mat \<Rightarrow> 'b mat \<Rightarrow> bool" where
  "same_shape A B = (nrows A = nrows B \<and> ncols A = ncols B)"

definition zeros :: "nat \<Rightarrow> nat \<Rightarrow> 'a::zero mat" where
  "zeros n m = Mat n m (replicate n (replicate m 0))"

definition set_column :: "'a mat \<Rightarrow> nat \<Rightarrow> 'a list \<Rightarrow> 'a mat" where
  \<comment> \<open>\<^verbatim>\<open>m[:, j] = c\<close>, for \<open>c\<close> as long as \<open>m\<close> has rows\<close>
  "set_column m j c = Mat (nrows m) (ncols m) (map (\<lambda>(r, x). r[j := x]) (zip (rows m) c))"

section \<open>The library's numerical routines\<close>

text \<open>
  The singular value decomposition, the eigendecomposition and the least-squares solver
  are routines of dask and numpy, not code of this program: they are parameters of the
  model, and each may raise. \<^verbatim>\<open>da.linalg.svd\<close> returns \<open>(u, s, v)\<close> with \<open>v\<close> the
  right factor as it is multiplied (rows are the temporal coefficients).
\<close>

record numlib =
  lib_svd :: "real mat \<Rightarrow> error + (real mat \<times> real list \<times> real mat)"
  lib_eig :: "real mat \<Rightarrow> error + (complex list \<times> complex mat)"
  lib_lstsq :: "complex mat \<Rightarrow> real list \<Rightarrow> error + complex list"

text \<open>
  \<^verbatim>\<open>np.linalg.eig\<close> returns the eigenvalues as a real array when every imaginary part is
  zero, and as a complex array otherwise; the array keeps that type when it is pickled,
  loaded and indexed. \<^verbatim>\<open>np.log\<close> of a real array gives nan at a negative entry, where the
  complex logarithm has the imaginary part \<open>pi\<close>; of zero it is \<open>-inf\<close> in both. \<open>None\<close>
  stands for a value that is not finite.
\<close>

datatype eigs = Eigs (real_dtype: bool) (vals: "complex list")

definition eig_array :: "complex list \<Rightarrow> eigs" where
  "eig_array w = Eigs (list_all (\<lambda>z. Im z = 0) w) w"

definition np_log :: "bool \<Rightarrow> complex \<Rightarrow> complex option" where
  "np_log real_dt z =
     (if z = 0 then None
      else if real_dt \<and> Re z < 0 then None
      else Some (Complex (ln (cmod z)) (Arg z)))"

definition np_omega :: "real \<Rightarrow> eigs \<Rightarrow> complex option list" where
  \<comment> \<open>\<^verbatim>\<open>omega = np.log(eigs) / self.dt\<close>; dividing the array by 0.0 gives inf or nan\<close>
  "np_omega d e =
     map (\<lambda>z. if d = 0 then None
              else map_option (\<lambda>l. l / complex_of_real d) (np_log (real_dtype e) z))
       (vals e)"

section \<open>The persisted artifacts of one variable\<close>

text \<open>
  The files a decomposition writes for one variable: \<^verbatim>\<open>u\<close>, \<^verbatim>\<open>v\<close> and \<^verbatim>\<open>s.pkl\<close> under
  \<^verbatim>\<open>path_pod\<close>, the others under \<^verbatim>\<open>path_dmd\<close>. \<open>None\<close> is a file that does not exist. An
  entry of the prediction that is \<^verbatim>\<open>nan\<close> or infinite is \<open>None\<close>.

  Every stage is a loop over the list \<^verbatim>\<open>variables\<close>. \<open>svd_save_usv\<close>, \<open>save_Atilde\<close> and
  \<open>save_modes\<close> below are the body of that loop for one variable that the overwrite
  guard leaves in the list, on the folder of that variable; the deletion of an older
  result folder by the guard is not modelled. \<open>for_variables\<close> is the loop.
\<close>

record artifacts =
  file_u :: "real mat option"
  file_s :: "real list option"
  file_v :: "real mat option"
  file_Atilde :: "real mat option"
  file_lambda :: "eigs option"
  file_b :: "complex list option"
  file_modes_real :: "real mat option"
  file_modes_imag :: "real mat option"
  file_prediction :: "real option mat option"

definition no_artifacts :: artifacts where
  "no_artifacts = \<lparr>file_u = None, file_s = None, file_v = None, file_Atilde = None,
     file_lambda = None, file_b = None, file_modes_real = None, file_modes_imag = None,
     file_prediction = None\<rparr>"

definition load :: "'a option \<Rightarrow> error + 'a" where
  "load f = (case f of None \<Rightarrow> Inl FileNotFoundError | Some x \<Rightarrow> Inr x)"

definition input_df :: "real frame option \<Rightarrow> real frame option \<Rightarrow> error + real frame" where
  \<comment> \<open>the dataset of the variable as a frame, read from \<^verbatim>\<open>path_parquet\<close> unless
      \<^verbatim>\<open>in_memory_df\<close> is given\<close>
  "input_df parquet in_memory_df =
     (case in_memory_df of None \<Rightarrow> load parquet | Some df \<Rightarrow> Inr df)"

definition input_array :: "real frame option \<Rightarrow> real mat option \<Rightarrow> error + real mat" where
  \<comment> \<open>\<^verbatim>\<open>dd.read_parquet(path_var).to_dask_array()\<close> unless \<^verbatim>\<open>in_memory_df\<close>, an array, is
      given\<close>
  "input_array parquet in_memory_df =
     (case in_memory_df of
        None \<Rightarrow> (case load parquet of Inl e \<Rightarrow> Inl e | Inr df \<Rightarrow> Inr (to_dask_array df))
      | Some a \<Rightarrow> Inr a)"

fun for_variables ::
  "(artifacts \<Rightarrow> error + artifacts) \<Rightarrow> (string \<Rightarrow> artifacts) \<Rightarrow> string list
   \<Rightarrow> error + (string \<Rightarrow> artifacts)" where
  \<comment> \<open>\<^verbatim>\<open>for var in variables\<close> in a stage whose body reads and writes the folder of
      \<open>var\<close> only; \<open>dir\<close> gives the folder of every variable\<close>
  "for_variables body dir [] = Inr dir"
| "for_variables body dir (var # rest) =
     (case body (dir var) of
        Inl e \<Rightarrow> Inl e
      | Inr a \<Rightarrow> for_variables body (dir(var := a)) rest)"

section \<open>POD.svd\_save\_usv\<close>

text \<open>
  \<^verbatim>\<open>df.values\<close> of a dask DataFrame is an array whose number of rows is unknown
  (\<^verbatim>\<open>nan\<close>), in one block of rows for every partition. On a single block
  \<^verbatim>\<open>da.linalg.svd\<close> gives \<open>u\<close> the width \<^verbatim>\<open>min(nan, n)\<close>, which is \<^verbatim>\<open>nan\<close>, and
  \<^verbatim>\<open>dd.from_array(u)\<close> in line 873 raises \<^verbatim>\<open>ValueError\<close> before anything is computed or
  written. On several blocks \<open>u\<close> has the \<open>n\<close> columns of the decimated matrix, and
  the factors are computed when the frames are written.
\<close>

definition svd_save_usv ::
  "numlib \<Rightarrow> base \<Rightarrow> artifacts \<Rightarrow> real frame option \<Rightarrow> bool \<Rightarrow> bool \<Rightarrow> real frame option
   \<Rightarrow> error + artifacts" where
  \<comment> \<open>\<open>kept\<close>: the overwrite guard, consulted only without \<^verbatim>\<open>in_memory_df\<close>, leaves the
      variable in the list\<close>
  "svd_save_usv lib self st parquet kept dmd_X1 in_memory_df =
     (if in_memory_df = None \<and> \<not> kept then Inr st
      else
        (case input_df parquet in_memory_df of
           Inl e \<Rightarrow> Inl e
         | Inr df \<Rightarrow>
             (case data_decimate self Frame (to_dask_array df) dmd_X1 False of
                Inl e \<Rightarrow> Inl e
              | Inr df' \<Rightarrow>
                  if npartitions df = 1 then Inl ValueError
                  else
                    (case lib_svd lib df' of
                       Inl e \<Rightarrow> Inl e
                     | Inr (U, S, V) \<Rightarrow>
                         Inr (st\<lparr>file_u := Some U, file_v := Some V, file_s := Some S\<rparr>)))))"

section \<open>DMD.save\_Atilde, save\_modes, save\_prediction\<close>

definition matmul3 :: "'a::semiring_0 mat \<Rightarrow> 'a mat \<Rightarrow> 'a mat \<Rightarrow> 'a mat \<Rightarrow> error + 'a mat" where
  \<comment> \<open>\<^verbatim>\<open>matmul(matmul(matmul(A, B), C), D)\<close>\<close>
  "matmul3 A B C D =
     (case matmul A B of
        Inl e \<Rightarrow> Inl e
      | Inr AB \<Rightarrow>
          (case matmul AB C of
             Inl e \<Rightarrow> Inl e
           | Inr ABC \<Rightarrow> matmul ABC D))"

definition save_Atilde ::
  "base \<Rightarrow> artifacts \<Rightarrow> real frame option \<Rightarrow> bool \<Rightarrow> real mat option \<Rightarrow> error + artifacts" where
  "save_Atilde self st parquet kept in_memory_df =
     (if in_memory_df = None \<and> \<not> kept then Inr st
      else
        (case input_array parquet in_memory_df of
           Inl e \<Rightarrow> Inl e
         | Inr df \<Rightarrow>
             (case data_decimate self Array df False True of
                Inl e \<Rightarrow> Inl e
              | Inr df2 \<Rightarrow>
                  (case (load (file_u st), load (file_s st), load (file_v st)) of
                     (Inr U, Inr S, Inr V) \<Rightarrow>
                       (case reciprocals S of
                          Inl e \<Rightarrow> Inl e
                        | Inr S_inv \<Rightarrow>
                            (case matmul3 (transpose_mat U) df2 (transpose_mat V) (diag S_inv) of
                               Inl e \<Rightarrow> Inl e
                             | Inr A \<Rightarrow> Inr (st\<lparr>file_Atilde := Some A\<rparr>)))
                   | _ \<Rightarrow> Inl FileNotFoundError))))"

definition save_modes ::
  "numlib \<Rightarrow> base \<Rightarrow> artifacts \<Rightarrow> real frame option \<Rightarrow> bool \<Rightarrow> real mat option
   \<Rightarrow> error + artifacts" where
  "save_modes lib self st parquet projection_method in_memory_df =
     (case load (file_Atilde st) of
        Inl e \<Rightarrow> Inl e
      | Inr A \<Rightarrow>
     (case lib_eig lib A of
        Inl e \<Rightarrow> Inl e
      | Inr (Lambda, eigvecs) \<Rightarrow>
     (case (load (file_u st), load (file_v st)) of
        (Inr U, Inr V) \<Rightarrow>
     (case input_array parquet in_memory_df of
        Inl e \<Rightarrow> Inl e
      | Inr df \<Rightarrow>
     (case
        (if projection_method then matmul (map_mat complex_of_real U) eigvecs
         else
           (case data_decimate self Array df False True of
              Inl e \<Rightarrow> Inl e
            | Inr df2 \<Rightarrow>
           (case load (file_s st) of
              Inl e \<Rightarrow> Inl e
            | Inr S \<Rightarrow>
           (case reciprocals S of
              Inl e \<Rightarrow> Inl e
            | Inr S_inv \<Rightarrow>
           (case matmul df2 (transpose_mat V) of
              Inl e \<Rightarrow> Inl e
            | Inr df2_Vt \<Rightarrow>
           (case matmul df2_Vt (diag S_inv) of
              Inl e \<Rightarrow> Inl e
            | Inr M \<Rightarrow> matmul (map_mat complex_of_real M) eigvecs)))))) of
        Inl e \<Rightarrow> Inl e
      | Inr phi \<Rightarrow>
          \<comment> \<open>the modes take the column labels of \<open>u\<close>\<close>
          if ncols phi \<noteq> ncols U then Inl ValueError
          \<comment> \<open>\<^verbatim>\<open>init = df[:, 0]\<close>, of the dataset as it was read\<close>
          else if ncols df = 0 then Inl IndexError
          else
            (case lib_lstsq lib phi (column df 0) of
               Inl e \<Rightarrow> Inl e
             | Inr bb \<Rightarrow>
                 Inr (st\<lparr>file_modes_real := Some (map_mat Re phi),
                          file_modes_imag := Some (map_mat Im phi),
                          file_b := Some bb,
                          file_lambda := Some (eig_array Lambda)\<rparr>))))
      | _ \<Rightarrow> Inl FileNotFoundError)))"

definition np_arange_len :: "int \<Rightarrow> int \<Rightarrow> error + nat" where
  \<comment> \<open>the length of \<^verbatim>\<open>np.arange(0, end, step)\<close>: \<open>end / step\<close> rounded up, and 0 when
      that is negative\<close>
  "np_arange_len e k = (if k = 0 then Inl ZeroDivisionError else Inr (nat (- ((- e) div k))))"

text \<open>
  \<^verbatim>\<open>save_prediction\<close> computes \<^verbatim>\<open>omega = np.log(eigs) / self.dt\<close> and, for the entry
  \<open>n\<close> of \<^verbatim>\<open>np.arange(0, end, frame_skip)\<close>, which gives the time \<open>t = n * dt\<close>, the
  column \<^verbatim>\<open>b * np.exp(omega * t)\<close>. Where \<open>omega\<close> is finite this is the exponential of
  the product. Where it is not, the product is \<^verbatim>\<open>nan\<close> when \<open>omega\<close> is \<^verbatim>\<open>nan\<close> or
  \<open>t\<close> is 0, so the exponential is \<^verbatim>\<open>nan\<close>; the one finite case left is a zero
  eigenvalue in a real array with \<open>0 < n\<close>, where the product is \<open>-inf\<close> and its
  exponential is 0. (In a complex array a zero eigenvalue gives \<open>omega\<close> a \<^verbatim>\<open>nan\<close>
  imaginary part.) Nothing is checked, and a product with \<^verbatim>\<open>nan\<close> or \<^verbatim>\<open>inf\<close> is not
  finite.
\<close>

definition np_exp_omega_t :: "real \<Rightarrow> eigs \<Rightarrow> int \<Rightarrow> complex option list" where
  \<comment> \<open>\<^verbatim>\<open>np.exp(omega * t)\<close> for \<open>t = n * dt\<close>\<close>
  "np_exp_omega_t d e n =
     map (\<lambda>(z, w). case w of
                     Some w' \<Rightarrow> Some (exp (w' * complex_of_real (real_of_int n * d)))
                   | None \<Rightarrow> if real_dtype e \<and> z = 0 \<and> d \<noteq> 0 \<and> 0 < n then Some 0 else None)
       (zip (vals e) (np_omega d e))"

definition dynamics_column :: "complex list \<Rightarrow> complex option list \<Rightarrow> error + complex option list" where
  \<comment> \<open>\<^verbatim>\<open>b * np.exp(omega * t)\<close>, as it is assigned to a column of \<open>len(b)\<close> entries: the
      two arrays have the same length, or \<open>omega\<close> has one entry and is broadcast\<close>
  "dynamics_column bb ex =
     (if length ex = length bb
      then Inr (map (\<lambda>(x, y). map_option ((*) x) y) (zip bb ex))
      else if length ex = 1
      then Inr (map (\<lambda>x. map_option ((*) x) (ex ! 0)) bb)
      else Inl ValueError)"

fun fill_dynamics ::
  "complex list \<Rightarrow> real \<Rightarrow> eigs \<Rightarrow> complex option mat \<Rightarrow> (nat \<times> int) list
   \<Rightarrow> error + complex option mat" where
  \<comment> \<open>\<^verbatim>\<open>for i, t in enumerate(time): dynamics[:, i] = b * np.exp(omega * t)\<close>\<close>
  "fill_dynamics bb d e D [] = Inr D"
| "fill_dynamics bb d e D ((i, n) # rest) =
     (case dynamics_column bb (np_exp_omega_t d e n) of
        Inl er \<Rightarrow> Inl er
      | Inr c \<Rightarrow> fill_dynamics bb d e (set_column D i c) rest)"

definition matmul_nan :: "complex mat \<Rightarrow> complex option mat \<Rightarrow> error + complex option mat" where
  \<comment> \<open>\<^verbatim>\<open>da.matmul(phi, dynamics)\<close>: an entry is finite when every entry of \<open>dynamics\<close>
      in its sum is\<close>
  "matmul_nan A B =
     (if ncols A \<noteq> nrows B then Inl ValueError
      else Inr (Mat (nrows A) (ncols B)
                 (map (\<lambda>r. map (\<lambda>j. map_option sum_list
                                      (those (map (\<lambda>k. map_option ((*) (r ! k)) (rows B ! k ! j))
                                                [0..<ncols A])))
                              [0..<ncols B])
                    (rows A))))"

definition save_prediction_var ::
  "base \<Rightarrow> artifacts \<Rightarrow> int option \<Rightarrow> int \<Rightarrow> error + (artifacts \<times> int)" where
  \<comment> \<open>the body of the loop of \<^verbatim>\<open>save_prediction\<close> for one variable, lines 2052 to 2095;
      the second result is the value of \<^verbatim>\<open>end\<close> after it\<close>
  "save_prediction_var self st end frame_skip =
     (case (load (file_b st), load (file_lambda st)) of
        (Inr bb, Inr eigs) \<Rightarrow>
     (case dt self of
        None \<Rightarrow> Inl AttributeError
      | Some d \<Rightarrow>
     (case (load (file_modes_real st), load (file_modes_imag st)) of
        (Inr phi_real, Inr phi_imag) \<Rightarrow>
     (if \<not> same_shape phi_real phi_imag then Inl NonFinite
      else
     (let phi = zip_mat Complex phi_real phi_imag;
          end' = (case end of None \<Rightarrow> int (ncols phi) | Some e \<Rightarrow> e)
      in
     (case np_arange_len end' frame_skip of
        Inl e \<Rightarrow> Inl e
      | Inr T \<Rightarrow>
     (case fill_dynamics bb d eigs (Mat (length bb) T (replicate (length bb) (replicate T (Some 0))))
             (enumerate 0 (map (\<lambda>i. int i * frame_skip) [0..<T])) of
        Inl e \<Rightarrow> Inl e
      | Inr dynamics \<Rightarrow>
     (case matmul_nan phi dynamics of
        Inl e \<Rightarrow> Inl e
      | Inr P \<Rightarrow> Inr (st\<lparr>file_prediction := Some (map_mat (map_option Re) P)\<rparr>, end'))))))
      | _ \<Rightarrow> Inl FileNotFoundError))
      | _ \<Rightarrow> Inl FileNotFoundError)"

fun save_prediction ::
  "base \<Rightarrow> (string \<Rightarrow> artifacts) \<Rightarrow> string list \<Rightarrow> int option \<Rightarrow> int
   \<Rightarrow> error + (string \<Rightarrow> artifacts)" where
  \<comment> \<open>\<^verbatim>\<open>for var in variables\<close>: \<^verbatim>\<open>end\<close>, once the first variable has replaced a \<^verbatim>\<open>None\<close>,
      keeps that value for the variables after it\<close>
  "save_prediction self dir [] end frame_skip = Inr dir"
| "save_prediction self dir (var # rest) end frame_skip =
     (case save_prediction_var self (dir var) end frame_skip of
        Inl e \<Rightarrow> Inl e
      | Inr (a, end') \<Rightarrow> save_prediction self (dir(var := a)) rest (Some end') frame_skip)"

section \<open>DMD.multires and multires\_predict\<close>

definition take_idx :: "'a list \<Rightarrow> nat list \<Rightarrow> error + 'a list" where
  \<comment> \<open>\<^verbatim>\<open>a[mask]\<close> for an array of positions: a position out of range raises\<close>
  "take_idx xs idx =
     (if list_all (\<lambda>i. i < length xs) idx then Inr (map (\<lambda>i. xs ! i) idx) else Inl IndexError)"

definition iloc_cols :: "'a mat \<Rightarrow> nat list \<Rightarrow> error + 'a mat" where
  \<comment> \<open>\<^verbatim>\<open>df.iloc[:, mask]\<close>\<close>
  "iloc_cols m idx =
     (if list_all (\<lambda>i. i < ncols m) idx then Inr (take_cols idx m) else Inl IndexError)"

definition slow_mask :: "real \<Rightarrow> nat \<Rightarrow> eigs \<Rightarrow> nat list" where
  \<comment> \<open>\<^verbatim>\<open>np.where(np.abs(omega) < rho * 2 * np.pi)[0]\<close> with
      \<^verbatim>\<open>rho = 1 / (self.dt * slice_size)\<close>; a comparison with nan or inf is false\<close>
  "slow_mask d slice_size e =
     filter (\<lambda>i. case np_omega d e ! i of
                    None \<Rightarrow> False
                  | Some w \<Rightarrow> cmod w < 1 / (d * real slice_size) * 2 * pi)
       [0..<length (vals e)]"

definition slow_filter :: "base \<Rightarrow> nat \<Rightarrow> artifacts \<Rightarrow> error + artifacts" where
  \<comment> \<open>lines 2820 to 2852, on the folder of \<open>var\<close>: the spectrum of the segment is cut
      down to its slow modes and written over the files \<^verbatim>\<open>b.pkl\<close>, \<^verbatim>\<open>lambda.pkl\<close>,
      \<^verbatim>\<open>modes_real\<close>, \<^verbatim>\<open>modes_imag\<close>\<close>
  "slow_filter self slice_size st =
     (case load (file_lambda st) of
        Inl e \<Rightarrow> Inl e
      | Inr eigs \<Rightarrow>
     (case dt self of
        None \<Rightarrow> Inl AttributeError
      | Some d \<Rightarrow>
     (if d * real slice_size = 0 then Inl ZeroDivisionError
      else
     (let mask = slow_mask d slice_size eigs
      in
     (case load (file_b st) of
        Inl e \<Rightarrow> Inl e
      | Inr bb \<Rightarrow>
     (case take_idx bb mask of
        Inl e \<Rightarrow> Inl e
      | Inr b_slow \<Rightarrow>
     (case take_idx (vals eigs) mask of
        Inl e \<Rightarrow> Inl e
      | Inr eigs_slow \<Rightarrow>
     (case (load (file_modes_real st), load (file_modes_imag st)) of
        (Inr phi_real, Inr phi_imag) \<Rightarrow>
     (case (iloc_cols phi_real mask, iloc_cols phi_imag mask) of
        (Inr real_slow, Inr imag_slow) \<Rightarrow>
          Inr (st\<lparr>file_b := Some b_slow,
                   file_lambda := Some (Eigs (real_dtype eigs) eigs_slow),
                   file_modes_real := Some real_slow,
                   file_modes_imag := Some imag_slow\<rparr>)
      | _ \<Rightarrow> Inl IndexError)
      | _ \<Rightarrow> Inl FileNotFoundError))))))))"

text \<open>
  In \<^verbatim>\<open>multires\<close> the four stages are called with the whole list \<^verbatim>\<open>variables\<close> and the
  segment of the variable \<open>var\<close> of the outer loop as \<^verbatim>\<open>in_memory_df\<close>: each of them
  works on the folder of every variable of the list with the data of \<open>var\<close>. Only the
  files of \<open>var\<close> are cut down to the slow modes.
\<close>

definition mr_segment ::
  "numlib \<Rightarrow> base \<Rightarrow> (string \<Rightarrow> artifacts) \<Rightarrow> string list \<Rightarrow> string \<Rightarrow> real frame \<Rightarrow> nat
   \<Rightarrow> error + (string \<Rightarrow> artifacts)" where
  \<comment> \<open>the body of the loop over the segments of a level, lines 2795 to 2853, on the
      folder of one segment; \<open>path_pod\<close> and \<open>path_dmd\<close> are that same folder, and
      \<open>dir\<close> gives its sub-folder for every variable\<close>
  "mr_segment lib self dir variables var df_i slice_size =
     (case for_variables (\<lambda>a. svd_save_usv lib self a None True True (Some df_i)) dir variables of
        Inl e \<Rightarrow> Inl e
      | Inr dir1 \<Rightarrow>
     (case for_variables (\<lambda>a. save_Atilde self a None True (Some (to_dask_array df_i))) dir1
             variables of
        Inl e \<Rightarrow> Inl e
      | Inr dir2 \<Rightarrow>
     (case for_variables (\<lambda>a. save_modes lib self a None True (Some (to_dask_array df_i))) dir2
             variables of
        Inl e \<Rightarrow> Inl e
      | Inr dir3 \<Rightarrow>
     (case slow_filter self slice_size (dir3 var) of
        Inl e \<Rightarrow> Inl e
      | Inr a \<Rightarrow> save_prediction self (dir3(var := a)) variables (Some (int slice_size)) 1))))"

text \<open>
  The folder \<^verbatim>\<open>path_mrdmd\<close>: the level folders that exist, the sub-folders of every
  segment \<open>(level, i)\<close> by variable, the file \<^verbatim>\<open>level_prediction\<close> of every variable and
  level, whether \<^verbatim>\<open>level_0/0\<close> holds \<^verbatim>\<open>x.pkl\<close> and \<^verbatim>\<open>y.pkl\<close>, and the file \<^verbatim>\<open>prediction\<close>
  that \<^verbatim>\<open>multires_predict\<close> writes for a variable. Every frame the pipeline of a
  segment writes has the partitions of the segment.
\<close>

record mrdmd =
  level_dirs :: "nat list"
  segment :: "nat \<times> nat \<Rightarrow> string \<Rightarrow> artifacts"
  level_prediction :: "string \<Rightarrow> nat \<Rightarrow> real frame option"
  xy_pkl :: bool
  mr_prediction :: "string \<Rightarrow> real frame option"

definition split_segments :: "'a mat \<Rightarrow> nat \<Rightarrow> 'a mat list" where
  \<comment> \<open>the columns of \<^verbatim>\<open>dfs\<close>, lines 2788 to 2792\<close>
  "split_segments df level =
     (let slice_size = ncols df div 2 ^ level
      in map (\<lambda>i. take_cols (slice_idx (ncols df) (Some (int (i * slice_size)))
                                 (Some (int ((i + 1) * slice_size)))) df)
           [0..<2 ^ level])"

definition hconcat :: "'a mat list \<Rightarrow> 'a mat" where
  \<comment> \<open>\<^verbatim>\<open>dd.concat(..., axis=1)\<close> of frames with the same rows; frames with other rows
      are aligned by pandas and filled with NaN, which \<open>mr_level\<close> turns into \<open>NonFinite\<close>\<close>
  "hconcat ms =
     Mat (nrows (hd ms)) (sum_list (map ncols ms))
       (map (\<lambda>r. concat (map (\<lambda>m. rows m ! r) ms)) [0..<nrows (hd ms)])"

definition finite_values :: "'a option mat \<Rightarrow> 'a mat option" where
  \<comment> \<open>the values of a matrix without \<^verbatim>\<open>nan\<close>\<close>
  "finite_values m =
     (if list_all (list_all (\<lambda>x. \<not> Option.is_none x)) (rows m) then Some (map_mat the m)
      else None)"

fun mr_segments ::
  "numlib \<Rightarrow> base \<Rightarrow> mrdmd \<Rightarrow> string list \<Rightarrow> string \<Rightarrow> nat \<Rightarrow> nat \<Rightarrow> (nat \<times> real frame) list
   \<Rightarrow> error + mrdmd" where
  \<comment> \<open>the loop over the segments of a level\<close>
  "mr_segments lib self st variables var level slice_size [] = Inr st"
| "mr_segments lib self st variables var level slice_size ((i, df_i) # rest) =
     (case mr_segment lib self (segment st (level, i)) variables var df_i slice_size of
        Inl e \<Rightarrow> Inl e
      | Inr dir \<Rightarrow>
          mr_segments lib self (st\<lparr>segment := (segment st)((level, i) := dir)\<rparr>) variables var
            level slice_size rest)"

definition mr_level ::
  "numlib \<Rightarrow> base \<Rightarrow> mrdmd \<Rightarrow> string list \<Rightarrow> string \<Rightarrow> real frame \<Rightarrow> nat \<Rightarrow> error + mrdmd" where
  \<comment> \<open>one pass of the loop over the levels, lines 2783 to 2870; \<open>df0\<close> is the truncated
      dataset, which level 0 works on. The predictions of the segments of \<open>var\<close> are
      finite, since their spectrum has been cut down to finite \<open>omega\<close>\<close>
  "mr_level lib self st variables var df0 level =
     (case (if 0 < level then load (level_prediction st var (level - 1)) else Inr df0) of
        Inl e \<Rightarrow> Inl e
      | Inr df \<Rightarrow>
     (let slice_size = ncols (to_dask_array df) div 2 ^ level
      in
     (case mr_segments lib self st variables var level slice_size
             (enumerate 0 (map (DaskFrame (npartitions df))
                              (split_segments (to_dask_array df) level))) of
        Inl e \<Rightarrow> Inl e
      | Inr st1 \<Rightarrow>
     (case those (map (\<lambda>i. file_prediction (segment st1 (level, i) var)) [0..<2 ^ level]) of
        None \<Rightarrow> Inl FileNotFoundError
      | Some files \<Rightarrow>
     (case those (map finite_values files) of
        None \<Rightarrow> Inl NonFinite
      | Some preds \<Rightarrow>
     (let df_new = hconcat preds
      in if ncols df_new \<noteq> ncols (to_dask_array df) then Inl ValueError
         else if \<not> list_all (\<lambda>m. nrows m = nrows (to_dask_array df)) preds then Inl NonFinite
         else Inr (st1\<lparr>level_prediction :=
                          (level_prediction st1)
                            (var := (level_prediction st1 var)
                               (level := Some (DaskFrame (npartitions df)
                                                 (zip_mat (-) (to_dask_array df) df_new))))\<rparr>)))))))"

fun mr_levels ::
  "numlib \<Rightarrow> base \<Rightarrow> mrdmd \<Rightarrow> string list \<Rightarrow> string \<Rightarrow> real frame \<Rightarrow> nat list \<Rightarrow> error + mrdmd" where
  "mr_levels lib self st variables var df0 [] = Inr st"
| "mr_levels lib self st variables var df0 (level # rest) =
     (case mr_level lib self st variables var df0 level of
        Inl e \<Rightarrow> Inl e
      | Inr st1 \<Rightarrow> mr_levels lib self st1 variables var df0 rest)"

definition truncate_end :: "'a mat \<Rightarrow> nat \<Rightarrow> int \<Rightarrow> 'a mat" where
  \<comment> \<open>\<^verbatim>\<open>df.iloc[:, : end - end % 2**levels]\<close>\<close>
  "truncate_end df levels e = take_cols (slice_idx (ncols df) None (Some (e - e mod 2 ^ levels))) df"

definition multires_var ::
  "numlib \<Rightarrow> base \<Rightarrow> mrdmd \<Rightarrow> (string \<Rightarrow> real frame option) \<Rightarrow> bool \<Rightarrow> string list \<Rightarrow> string
   \<Rightarrow> nat \<Rightarrow> int option \<Rightarrow> error + mrdmd" where
  \<comment> \<open>the body of the loop over the variables, lines 2775 to 2870. \<open>parquet_xy\<close>: the
      dataset folder holds \<^verbatim>\<open>x.pkl\<close> and \<^verbatim>\<open>y.pkl\<close>, which \<^verbatim>\<open>svd_save_usv\<close> then copies into
      the folder of every segment. The truncation subtracts from \<^verbatim>\<open>end\<close> before \<^verbatim>\<open>end\<close>
      is compared with \<^verbatim>\<open>None\<close>\<close>
  "multires_var lib self st parquet parquet_xy variables var levels end =
     (case load (parquet var) of
        Inl e \<Rightarrow> Inl e
      | Inr df \<Rightarrow>
     (case end of
        None \<Rightarrow> Inl TypeError
      | Some e \<Rightarrow>
          mr_levels lib self
            (st\<lparr>level_dirs := level_dirs st @ [0..<levels],
                 xy_pkl := (xy_pkl st \<or> (0 < levels \<and> parquet_xy))\<rparr>)
            variables var
            (DaskFrame (npartitions df) (truncate_end (to_dask_array df) levels e))
            [0..<levels]))"

fun multires_loop ::
  "numlib \<Rightarrow> base \<Rightarrow> mrdmd \<Rightarrow> (string \<Rightarrow> real frame option) \<Rightarrow> bool \<Rightarrow> string list \<Rightarrow> string list
   \<Rightarrow> nat \<Rightarrow> int option \<Rightarrow> error + mrdmd" where
  \<comment> \<open>\<^verbatim>\<open>for var in variables\<close>, on the variables \<open>rest\<close> that are left\<close>
  "multires_loop lib self st parquet parquet_xy variables [] levels end = Inr st"
| "multires_loop lib self st parquet parquet_xy variables (var # rest) levels end =
     (case multires_var lib self st parquet parquet_xy variables var levels end of
        Inl e \<Rightarrow> Inl e
      | Inr st1 \<Rightarrow> multires_loop lib self st1 parquet parquet_xy variables rest levels end)"

definition multires ::
  "numlib \<Rightarrow> base \<Rightarrow> mrdmd \<Rightarrow> (string \<Rightarrow> real frame option) \<Rightarrow> bool \<Rightarrow> string list
   \<Rightarrow> nat \<Rightarrow> int option \<Rightarrow> error + mrdmd" where
  "multires lib self st parquet parquet_xy variables levels end =
     multires_loop lib self st parquet parquet_xy variables variables levels end"

function discover_levels :: "nat list \<Rightarrow> nat \<Rightarrow> nat" where
  \<comment> \<open>\<^verbatim>\<open>while True: if not (path / f"level_{levels}").exists(): break; levels += 1\<close>\<close>
  "discover_levels dirs n = (if n \<in> set dirs then discover_levels dirs (Suc n) else n)"
  by pat_completeness auto
termination
proof (relation "measure (\<lambda>(dirs, n). Suc (Max (insert 0 (set dirs))) - n)")
  show "wf (measure (\<lambda>(dirs, n). Suc (Max (insert 0 (set dirs))) - n))" by simp
next
  fix dirs :: "nat list" and n :: nat
  assume "n \<in> set dirs"
  then have "n \<le> Max (insert 0 (set dirs))" by simp
  then show "((dirs, Suc n), (dirs, n)) \<in> measure (\<lambda>(dirs, n). Suc (Max (insert 0 (set dirs))) - n)"
    by simp
qed

definition add_frames :: "real frame \<Rightarrow> real frame list \<Rightarrow> real frame" where
  \<comment> \<open>\<^verbatim>\<open>prediction_df += predictions[i]\<close> for the later levels, on frames of the same
      partitions and the same shape\<close>
  "add_frames p ps =
     DaskFrame (npartitions p) (foldl (zip_mat (+)) (to_dask_array p) (map to_dask_array ps))"

definition multires_predict_var :: "mrdmd \<Rightarrow> string \<Rightarrow> error + mrdmd" where
  \<comment> \<open>the body of the loop over the variables, lines 2876 to 2911. Adding frames of
      different partitions raises, since their divisions are unknown; frames of
      different shapes are aligned by pandas and filled with NaN when they are written\<close>
  "multires_predict_var st var =
     (let levels = discover_levels (level_dirs st) 0
      in
     (case those (map (level_prediction st var) [0..<levels]) of
        None \<Rightarrow> Inl FileNotFoundError
      | Some predictions \<Rightarrow>
     (case predictions of
        [] \<Rightarrow> Inl IndexError
      | p # ps \<Rightarrow>
          if \<not> list_all (\<lambda>q. npartitions q = npartitions p) ps then Inl ValueError
          else if \<not> xy_pkl st then Inl FileNotFoundError
          else if \<not> list_all (\<lambda>q. same_shape (to_dask_array p) (to_dask_array q)) ps
          then Inl NonFinite
          else Inr (st\<lparr>mr_prediction := (mr_prediction st)(var := Some (add_frames p ps))\<rparr>))))"

fun multires_predict :: "mrdmd \<Rightarrow> string list \<Rightarrow> error + mrdmd" where
  "multires_predict st [] = Inr st"
| "multires_predict st (var # rest) =
     (case multires_predict_var st var of
        Inl e \<Rightarrow> Inl e
      | Inr st1 \<Rightarrow> multires_predict st1 rest)"

section \<open>Concrete inputs\<close>

text \<open>
  A configuration without decimation and with timestep 1, and a dataset of two points
  and three snapshots that turns a quarter of a circle per step. The second
  configuration cuts the first and the last half of the columns.
\<close>

definition cfg_plain :: base where
  "cfg_plain = \<lparr>data_cutoff = None, data_cutin = None, data_skip = None, dt = Some 1, t0 = Some 0\<rparr>"

definition cfg_half :: base where
  "cfg_half = \<lparr>data_cutoff = Some 50, data_cutin = Some 50, data_skip = None, dt = None, t0 = None\<rparr>"

definition X_rot :: "real mat" where
  "X_rot = Mat 2 3 [[2, 0, - 2], [0, 1, 0]]"

text \<open>
  Library routines that return the decomposition of the matrices the run on \<open>X_rot\<close>
  hands them: the singular value decomposition of \<open>[[2, 0], [0, 1]]\<close>, the eigenpairs
  of \<open>[[0, - 2], [1 / 2, 0]]\<close> (eigenvalues \<open>\<i>\<close> and \<open>- \<i>\<close>), and the solution of
  \<open>Phi b = (2, 0)\<close>.
\<close>

definition lib_rot :: numlib where
  "lib_rot = \<lparr>
     lib_svd = (\<lambda>m. Inr (Mat 2 2 [[1, 0], [0, 1]], [2, 1], Mat 2 2 [[1, 0], [0, 1]])),
     lib_eig = (\<lambda>A. Inr ([\<i>, - \<i>], Mat 2 2 [[2, 2], [- \<i>, \<i>]])),
     lib_lstsq = (\<lambda>phi y. Inr [1 / 2, 1 / 2])\<rparr>"



text \<open>
  The artifacts of the run on \<open>X_rot\<close>, stored in two partitions, after each stage, and
  a dataset of one snapshot with its singular value decomposition.
\<close>

definition usv_rot :: artifacts where
  "usv_rot = no_artifacts\<lparr>file_u := Some (Mat 2 2 [[1, 0], [0, 1]]),
                           file_v := Some (Mat 2 2 [[1, 0], [0, 1]]),
                           file_s := Some [2, 1]\<rparr>"

definition atilde_rot :: artifacts where
  "atilde_rot = usv_rot\<lparr>file_Atilde := Some (Mat 2 2 [[0, - 2], [1 / 2, 0]])\<rparr>"

definition modes_rot :: artifacts where
  "modes_rot = atilde_rot\<lparr>file_modes_real := Some (Mat 2 2 [[2, 2], [0, 0]]),
                            file_modes_imag := Some (Mat 2 2 [[0, 0], [- 1, 1]]),
                            file_b := Some [1 / 2, 1 / 2],
                            file_lambda := Some (Eigs False [\<i>, - \<i>])\<rparr>"








section \<open>What a finished run says about one level\<close>

text \<open>
  A predicate for the statements about \<^verbatim>\<open>multires\<close>: in the pass of the outer loop for
  the variable \<open>var\<close>, from the folder \<open>st\<close> to the folder \<open>st'\<close> on the truncated
  dataset \<open>df0\<close>, the level \<open>L\<close> worked on \<open>inp\<close> (\<open>df0\<close> at level 0, the file
  \<^verbatim>\<open>level_prediction\<close> of the level before otherwise), its \<open>2 ^ L\<close> segments are the
  results of the segment pipeline on the slices of \<open>inp\<close>, and its file
  \<^verbatim>\<open>level_prediction\<close> holds \<open>inp\<close> minus the concatenated predictions \<open>preds\<close> of the
  segments.
\<close>

definition level_run ::
  "numlib \<Rightarrow> base \<Rightarrow> string list \<Rightarrow> string \<Rightarrow> mrdmd \<Rightarrow> mrdmd \<Rightarrow> real frame \<Rightarrow> nat \<Rightarrow> real frame
   \<Rightarrow> real mat list \<Rightarrow> bool" where
  "level_run lib self variables var st st' df0 L inp preds =
     ((if 0 < L then level_prediction st' var (L - 1) = Some inp else inp = df0)
      \<and> npartitions inp = npartitions df0
      \<and> ncols (to_dask_array inp) = ncols (to_dask_array df0)
      \<and> 2 ^ L * (ncols (to_dask_array inp) div 2 ^ L) = ncols (to_dask_array inp)
      \<and> list_all (\<lambda>i. mr_segment lib self (segment st (L, i)) variables var
                         (DaskFrame (npartitions inp) (split_segments (to_dask_array inp) L ! i))
                         (ncols (to_dask_array inp) div 2 ^ L) = Inr (segment st' (L, i)))
          [0..<2 ^ L]
      \<and> length preds = 2 ^ L
      \<and> list_all (\<lambda>i. file_prediction (segment st' (L, i) var) = Some (map_mat Some (preds ! i)))
          [0..<2 ^ L]
      \<and> level_prediction st' var L
          = Some (DaskFrame (npartitions inp) (zip_mat (-) (to_dask_array inp) (hconcat preds))))"

section \<open>Concrete runs of multires\<close>

text \<open>
  An empty result folder, and a dataset \<open>u\<close> of three points and four snapshots, stored
  in two partitions. Its first three snapshots are orthogonal, with the singular values
  252, 192 and 189; the snapshots are \<open>p + f\<^sub>k\<close> with the steady part
  \<open>p = (- 4, 0, 192)\<close> and a part \<open>f\<^sub>k\<close> that is the sum of a mode with the eigenvalue
  \<open>1/8\<close> and a mode with the eigenvalue \<open>- 1/8\<close>. The library routines return the
  decompositions of the matrices that the run with two levels hands them: at level 0
  the reduced operator has the eigenvalues 1, \<open>1/8\<close> and \<open>- 1/8\<close>; at level 1 the two
  segments of the residual have one mode each, with the eigenvalue \<open>37/100\<close>.
\<close>

definition mr_empty :: mrdmd where
  "mr_empty = \<lparr>level_dirs = [], segment = (\<lambda>k v. no_artifacts), level_prediction = (\<lambda>v L. None),
                xy_pkl = False, mr_prediction = (\<lambda>v. None)\<rparr>"

definition X_four :: "real mat" where
  "X_four = Mat 3 4 [[252, 0, 0, - (63 / 16)], [0, 192, 0, 3], [0, 0, 189, 189]]"

definition lib_four :: numlib where
  "lib_four = \<lparr>
     lib_svd = (\<lambda>m.
       if m = Mat 3 3 [[252, 0, 0], [0, 192, 0], [0, 0, 189]]
       then Inr (Mat 3 3 [[1, 0, 0], [0, 1, 0], [0, 0, 1]], [252, 192, 189],
                 Mat 3 3 [[1, 0, 0], [0, 1, 0], [0, 0, 1]])
       else if m = Mat 3 1 [[256], [0], [- 192]]
       then Inr (Mat 3 1 [[4 / 5], [0], [- (3 / 5)]], [320], Mat 1 1 [[1]])
       else if m = Mat 3 1 [[4], [0], [- 3]]
       then Inr (Mat 3 1 [[4 / 5], [0], [- (3 / 5)]], [5], Mat 1 1 [[1]])
       else Inl LinAlgError),
     lib_eig = (\<lambda>A.
       if A = Mat 3 3 [[0, 0, - (1 / 48)], [16 / 21, 0, 1 / 63], [0, 63 / 64, 1]]
       then Inr ([1, 1 / 8, - (1 / 8)], Mat 3 3 [[- 1, - 3, 7], [0, - 16, - 48], [48, 18, 42]])
       else if A = Mat 1 1 [[37 / 100]]
       then Inr ([37 / 100], Mat 1 1 [[1]])
       else Inl LinAlgError),
     lib_lstsq = (\<lambda>phi y.
       if y = [252, 0, 0] then Inr [4, - 48, 16]
       else if y = [256, 0, - 192] then Inr [320]
       else if y = [4, 0, - 3] then Inr [5]
       else Inl LinAlgError)\<rparr>"

definition seg_four_0 :: artifacts where
  "seg_four_0 = \<lparr>file_u = Some (Mat 3 3 [[1, 0, 0], [0, 1, 0], [0, 0, 1]]),
     file_s = Some [252, 192, 189],
     file_v = Some (Mat 3 3 [[1, 0, 0], [0, 1, 0], [0, 0, 1]]),
     file_Atilde = Some (Mat 3 3 [[0, 0, - (1 / 48)], [16 / 21, 0, 1 / 63], [0, 63 / 64, 1]]),
     file_lambda = Some (Eigs True [1]), file_b = Some [4],
     file_modes_real = Some (Mat 3 1 [[- 1], [0], [48]]),
     file_modes_imag = Some (Mat 3 1 [[0], [0], [0]]),
     file_prediction = Some (Mat 3 4 [[Some (- 4), Some (- 4), Some (- 4), Some (- 4)],
                                      [Some 0, Some 0, Some 0, Some 0],
                                      [Some 192, Some 192, Some 192, Some 192]])\<rparr>"

definition seg_four_10 :: artifacts where
  "seg_four_10 = \<lparr>file_u = Some (Mat 3 1 [[4 / 5], [0], [- (3 / 5)]]), file_s = Some [320],
     file_v = Some (Mat 1 1 [[1]]), file_Atilde = Some (Mat 1 1 [[37 / 100]]),
     file_lambda = Some (Eigs True [37 / 100]), file_b = Some [320],
     file_modes_real = Some (Mat 3 1 [[4 / 5], [0], [- (3 / 5)]]),
     file_modes_imag = Some (Mat 3 1 [[0], [0], [0]]),
     file_prediction = Some (Mat 3 2 [[Some 256, Some (2368 / 25)], [Some 0, Some 0],
                                      [Some (- 192), Some (- (1776 / 25))]])\<rparr>"

definition seg_four_11 :: artifacts where
  "seg_four_11 = \<lparr>file_u = Some (Mat 3 1 [[4 / 5], [0], [- (3 / 5)]]), file_s = Some [5],
     file_v = Some (Mat 1 1 [[1]]), file_Atilde = Some (Mat 1 1 [[37 / 100]]),
     file_lambda = Some (Eigs True [37 / 100]), file_b = Some [5],
     file_modes_real = Some (Mat 3 1 [[4 / 5], [0], [- (3 / 5)]]),
     file_modes_imag = Some (Mat 3 1 [[0], [0], [0]]),
     file_prediction = Some (Mat 3 2 [[Some 4, Some (37 / 25)], [Some 0, Some 0],
                                      [Some (- 3), Some (- (111 / 100))]])\<rparr>"

definition R_four_0 :: "real mat" where
  \<comment> \<open>the dataset minus the prediction of level 0\<close>
  "R_four_0 = Mat 3 4 [[256, 4, 4, 1 / 16], [0, 192, 0, 3], [- 192, - 192, - 3, - 3]]"

definition R_four_1 :: "real mat" where
  \<comment> \<open>\<open>R_four_0\<close> minus the predictions of the two segments of level 1\<close>
  "R_four_1 = Mat 3 4 [[0, - (2268 / 25), 0, - (567 / 400)], [0, 192, 0, 3],
                       [0, - (3024 / 25), 0, - (189 / 100)]]"

definition mr_four :: mrdmd where
  "mr_four = \<lparr>level_dirs = [0, 1],
     segment = (\<lambda>k v. no_artifacts)
                 ((0, 0) := (\<lambda>v. no_artifacts)(''u'' := seg_four_0),
                  (1, 0) := (\<lambda>v. no_artifacts)(''u'' := seg_four_10),
                  (1, 1) := (\<lambda>v. no_artifacts)(''u'' := seg_four_11)),
     level_prediction = (\<lambda>v L. None)
                 (''u'' := (\<lambda>L. None)(0 := Some (DaskFrame 2 R_four_0),
                                       1 := Some (DaskFrame 2 R_four_1))),
     xy_pkl = True, mr_prediction = (\<lambda>v. None)\<rparr>"

text \<open>
  A dataset of five points and six snapshots, stored in two partitions. Its first five
  snapshots are orthogonal, with the singular values 16, 8, 4, 2 and 1, and the reduced
  operator has the eigenvalues 1, \<open>- 1\<close>, \<open>- 2\<close>, \<open>- 1/2\<close> and \<open>- 4\<close>; the steady part of the
  dataset is \<open>(64/45, 8/3, 14/9, 1/3, 1/45)\<close>.
\<close>

definition X_six :: "real mat" where
  "X_six = Mat 5 6 [[16, 0, 0, 0, 0, 64], [0, 8, 0, 0, 0, 88], [0, 0, 4, 0, 0, 10],
                    [0, 0, 0, 2, 0, - 20], [0, 0, 0, 0, 1, - (13 / 2)]]"

definition I_five :: "real mat" where
  "I_five = Mat 5 5 [[1, 0, 0, 0, 0], [0, 1, 0, 0, 0], [0, 0, 1, 0, 0], [0, 0, 0, 1, 0],
                     [0, 0, 0, 0, 1]]"

definition A_six :: "real mat" where
  \<comment> \<open>the reduced operator of \<open>X_six\<close>\<close>
  "A_six = Mat 5 5 [[0, 0, 0, 0, 64], [1 / 2, 0, 0, 0, 88], [0, 1 / 2, 0, 0, 10],
                    [0, 0, 1 / 2, 0, - 20], [0, 0, 0, 1 / 2, - (13 / 2)]]"

definition lib_six :: numlib where
  "lib_six = \<lparr>
     lib_svd = (\<lambda>m. Inr (I_five, [16, 8, 4, 2, 1], I_five)),
     lib_eig = (\<lambda>A. Inr ([1, - 1, - 2, - (1 / 2), - 4],
                  Mat 5 5 [[64, - 64, - 32, - 128, - 16], [120, - 56, - 36, - 48, - 20],
                           [70, 18, 4, 28, 0], [15, 11, 9, 12, 5], [1, 1, 1, 1, 1]])),
     lib_lstsq = (\<lambda>phi y. Inr [1 / 45, 1 / 3, - (1 / 9), - (16 / 63), 1 / 105])\<rparr>"

definition P_six :: "real mat" where
  \<comment> \<open>the prediction of level 0: the steady part in every column\<close>
  "P_six = Mat 5 6 (map (replicate 6) [64 / 45, 8 / 3, 14 / 9, 1 / 3, 1 / 45])"

definition seg_six :: artifacts where
  "seg_six = \<lparr>file_u = Some I_five, file_s = Some [16, 8, 4, 2, 1], file_v = Some I_five,
     file_Atilde = Some A_six, file_lambda = Some (Eigs True [1]), file_b = Some [1 / 45],
     file_modes_real = Some (Mat 5 1 [[64], [120], [70], [15], [1]]),
     file_modes_imag = Some (Mat 5 1 [[0], [0], [0], [0], [0]]),
     file_prediction = Some (map_mat Some P_six)\<rparr>"

definition mr_six :: mrdmd where
  "mr_six = \<lparr>level_dirs = [0],
     segment = (\<lambda>k v. no_artifacts)((0, 0) := (\<lambda>v. no_artifacts)(''u'' := seg_six)),
     level_prediction = (\<lambda>v L. None)
        (''u'' := (\<lambda>L. None)(0 := Some (DaskFrame 2 (zip_mat (-) X_six P_six)))),
     xy_pkl = False, mr_prediction = (\<lambda>v. None)\<rparr>"

section \<open>Properties of the decimation and of the timestep\<close>

lemma ncols_take_cols: "ncols (take_cols idx m) = length idx"
  by (simp add: take_cols_def)

lemma nrows_take_cols: "nrows (take_cols idx m) = nrows m"
  by (simp add: take_cols_def)

lemma take_cols_upt:
  "list_all (\<lambda>j. j < n) idx \<Longrightarrow> take_cols idx (take_cols [0..<n] m) = take_cols idx m"
  by (simp add: take_cols_def list_all_iff)

lemma cut_count_100_50: "cut_count 100 50 = 50"
  by (simp add: cut_count_def py_int_def)

lemma strided_50: "filter (\<lambda>j. int j mod 2 = 0) [0..<50] = map (\<lambda>i. 2 * i) [0..<25]"
  by code_simp

lemma data_decimate_100:
  assumes "ncols df = 100" "data_cutoff self = Some 50" "data_cutin self = None"
    "data_skip self = Some 2"
  shows "data_decimate self Array df False False = Inr (take_cols (map (\<lambda>i. 2 * i) [0..<25]) df)"
proof -
  have a: "apply_cutoff self df = take_cols [0..<50] df"
    using assms by (simp add: apply_cutoff_def slice_idx_def cut_count_100_50 py_bound_def)
  have b: "apply_cutin self (take_cols [0..<50] df) = take_cols [0..<50] df"
    using assms by (simp add: apply_cutin_def)
  have "take_cols (map (\<lambda>i. 2 * i) [0..<25]) (take_cols [0..<50] df) =
        take_cols (map (\<lambda>i. 2 * i) [0..<25]) df"
    by (rule take_cols_upt) (simp add: list_all_iff del: upt_rec_numeral)
  then have c: "apply_skip self Array (take_cols [0..<50] df) =
                Inr (take_cols (map (\<lambda>i. 2 * i) [0..<25]) df)"
    using assms
    by (simp add: apply_skip_def stride_idx_def ncols_take_cols strided_50 del: upt_rec_numeral)
  show ?thesis by (simp add: data_decimate_def a b c)
qed

lemma data_decimate_all_three:
  assumes "data_cutoff self = Some c" "data_cutin self = Some c'" "data_skip self = Some k" "0 < k"
    and A: "A = take_cols (slice_idx (ncols df) None (Some (cut_count (ncols df) c))) df"
    and B: "B = take_cols (slice_idx (ncols A) (Some (cut_count (ncols A) c')) None) A"
  shows "data_decimate self Array df False False =
           Inr (take_cols (filter (\<lambda>j. int j mod k = 0) [0..<ncols B]) B)"
  using assms(1-4) unfolding A B
  by (simp add: data_decimate_def apply_cutoff_def apply_cutin_def apply_skip_def stride_idx_def)

text \<open>
  Claim C6, as amended. \<^verbatim>\<open>data_decimate\<close> applies the cutoff, then the cutin, then the
  stride. The number of columns the cutoff keeps is \<open>int(n * cutoff / 100)\<close> for the
  \<open>n\<close> columns of the input; the number of columns the cutin drops is
  \<open>int(n' * cutin / 100)\<close> for the \<open>n'\<close> columns that the cutoff has left, not for \<open>n\<close>.
  On a dask array of 100 columns, a cutoff of 50 with a stride of 2 and no cutin gives
  the columns 0, 2, 4, ..., 48.
\<close>

theorem data_decimate_order:
  "(data_cutoff self = Some c \<and> data_cutin self = Some c' \<and> data_skip self = Some k \<and> 0 < k
      \<and> A = take_cols (slice_idx (ncols df) None (Some (cut_count (ncols df) c))) df
      \<and> B = take_cols (slice_idx (ncols A) (Some (cut_count (ncols A) c')) None) A
    \<longrightarrow> data_decimate self Array df False False =
          Inr (take_cols (filter (\<lambda>j. int j mod k = 0) [0..<ncols B]) B))
   \<and> (ncols df = 100 \<and> data_cutoff self = Some 50 \<and> data_cutin self = None
        \<and> data_skip self = Some 2
    \<longrightarrow> data_decimate self Array df False False =
          Inr (take_cols (map (\<lambda>i. 2 * i) [0..<25]) df))"
  using data_decimate_all_three data_decimate_100 by blast

theorem data_decimate_order_witness:
  "data_decimate (cfg_half\<lparr>data_skip := Some 1\<rparr>) Array (Mat 1 4 [[10, 11, 12, 13 :: int]]) False False
     = Inr (Mat 1 1 [[11]])
   \<and> data_decimate (cfg_plain\<lparr>data_cutoff := Some 50, data_skip := Some 2\<rparr>) Array
        (Mat 1 100 [map int [0..<100]]) False False
     = Inr (Mat 1 25 [map (\<lambda>i. 2 * int i) [0..<25]])"
proof -
  let ?M = "Mat 1 4 [[10, 11, 12, 13 :: int]]"
  let ?A = "take_cols (slice_idx (ncols ?M) None (Some (cut_count (ncols ?M) 50))) ?M"
  let ?B = "take_cols (slice_idx (ncols ?A) (Some (cut_count (ncols ?A) 50)) None) ?A"
  let ?N = "Mat 1 100 [map int [0..<100]]"
  have A: "?A = Mat 1 2 [[10, 11]]"
    by code_simp
  have B: "?B = Mat 1 1 [[11]]"
    by code_simp
  have "data_decimate (cfg_half\<lparr>data_skip := Some 1\<rparr>) Array ?M False False =
          Inr (take_cols (filter (\<lambda>j. int j mod 1 = 0) [0..<ncols ?B]) ?B)"
    using data_decimate_order[of "cfg_half\<lparr>data_skip := Some 1\<rparr>" 50 50 1 ?A ?M ?B]
    by (simp add: cfg_half_def)
  then have one: "data_decimate (cfg_half\<lparr>data_skip := Some 1\<rparr>) Array ?M False False =
                    Inr (Mat 1 1 [[11]])"
    unfolding B by code_simp
  have "data_decimate (cfg_plain\<lparr>data_cutoff := Some 50, data_skip := Some 2\<rparr>) Array ?N False False =
          Inr (take_cols (map (\<lambda>i. 2 * i) [0..<25]) ?N)"
    using data_decimate_order[of "cfg_plain\<lparr>data_cutoff := Some 50, data_skip := Some 2\<rparr>" _ _ _ _ ?N]
    by (simp add: cfg_plain_def)
  also have "take_cols (map (\<lambda>i. 2 * i) [0..<25]) ?N = Mat 1 25 [map (\<lambda>i. 2 * int i) [0..<25]]"
    by (simp add: take_cols_def del: upt_rec_numeral)
  finally show ?thesis using one by simp
qed

text \<open>
  The counterexample to C6 as it is stated: with a cutoff and a cutin of 50 percent on
  four columns, the cutin drops one column (50 percent of the two columns left), not two
  (50 percent of the four columns of the input), and the column 11 remains.
\<close>

theorem data_decimate_cutin_counterexample:
  "data_decimate cfg_half Array (Mat 1 4 [[10, 11, 12, 13 :: int]]) False False
     = Inr (Mat 1 1 [[11]])
   \<and> take_cols (slice_idx 2 (Some (cut_count 4 50)) None)
       (take_cols (slice_idx 4 None (Some (cut_count 4 50))) (Mat 1 4 [[10, 11, 12, 13 :: int]]))
     = Mat 1 0 [[]]"
  by code_simp

text \<open>
  Claim C10. \<^verbatim>\<open>set_time(dt, t0)\<close> stores \<open>dt * data_skip\<close> when the attribute
  \<^verbatim>\<open>data_skip\<close> holds a number, which is when the last call of \<^verbatim>\<open>set_data_skip\<close> before
  it gave one, and \<open>dt\<close> otherwise. A later \<^verbatim>\<open>set_data_skip\<close> leaves the stored timestep
  as it is, so the two orders of the calls store different timesteps, and the
  frequencies \<open>omega = log(Lambda) / dt\<close> computed from the first are those of the
  second divided by \<open>data_skip\<close>.
\<close>

theorem set_time_order:
  "(data_skip self = Some k \<longrightarrow> dt (set_time self d t) = Some (d * real_of_int k))
   \<and> (data_skip self = None \<longrightarrow> dt (set_time self d t) = Some d)
   \<and> data_skip (set_data_skip self ko) = ko
   \<and> dt (set_data_skip (set_time (set_data_skip self None) d t) (Some k)) = Some d
   \<and> dt (set_time (set_data_skip self (Some k)) d t) = Some (d * real_of_int k)
   \<and> (d \<noteq> 0 \<and> k \<noteq> 1 \<longrightarrow>
        dt (set_time (set_data_skip self (Some k)) d t)
        \<noteq> dt (set_data_skip (set_time (set_data_skip self None) d t) (Some k)))
   \<and> (d \<noteq> 0 \<and> k \<noteq> 0 \<longrightarrow>
        np_omega (d * real_of_int k) e
        = map (map_option (\<lambda>w. w / complex_of_int k)) (np_omega d e))"
proof -
  have "d \<noteq> 0 \<and> k \<noteq> 0 \<longrightarrow>
        np_omega (d * real_of_int k) e
        = map (map_option (\<lambda>w. w / complex_of_int k)) (np_omega d e)"
    by (auto simp: np_omega_def option.map_comp comp_def)
  then show ?thesis
    by (simp add: set_time_def set_data_skip_def)
qed

theorem set_time_order_witness:
  "dt (set_time (set_data_skip cfg_plain (Some 2)) (1 / 10) 0) = Some (1 / 5)
   \<and> dt (set_data_skip (set_time (set_data_skip cfg_plain None) (1 / 10) 0) (Some 2)) = Some (1 / 10)
   \<and> dt (set_time (set_data_skip cfg_plain (Some 2)) (1 / 10) 0)
     \<noteq> dt (set_data_skip (set_time (set_data_skip cfg_plain None) (1 / 10) 0) (Some 2))"
  using set_time_order[where self = cfg_plain and k = 2 and d = "1 / 10" and t = 0]
  by simp

section \<open>Properties of correlate\<close>




















section \<open>Properties of the decomposition stages\<close>





lemma load_Inr: "load f = Inr x \<longleftrightarrow> f = Some x"
  by (auto simp: load_def split: option.splits)



lemma upt_0_2: "[0..<2] = [0, 1]"
  by code_simp







text \<open>
  Claim C4. \<^verbatim>\<open>save_modes\<close> persists the amplitudes that the least-squares routine of
  the library returns for the modes \<open>Phi\<close> it has just persisted and the first column
  of the dataset as it was read: \<^verbatim>\<open>data_decimate\<close> is not applied to that column,
  whatever cutoff, cutin or stride is set.
\<close>

theorem save_modes_amplitudes:
  assumes "save_modes lib self st parquet projection_method in_memory_df = Inr st'"
  shows "\<exists>df phi bb.
           input_array parquet in_memory_df = Inr df \<and> 0 < ncols df
         \<and> (projection_method \<longrightarrow>
               (\<exists>A Lambda W U. file_Atilde st = Some A \<and> lib_eig lib A = Inr (Lambda, W)
                  \<and> file_u st = Some U \<and> matmul (map_mat complex_of_real U) W = Inr phi))
         \<and> file_modes_real st' = Some (map_mat Re phi)
         \<and> file_modes_imag st' = Some (map_mat Im phi)
         \<and> lib_lstsq lib phi (column df 0) = Inr bb
         \<and> file_b st' = Some bb"
  using assms
  by (auto simp: save_modes_def load_Inr split: sum.splits if_splits prod.splits)

lemma matmul_rot_modes:
  "matmul (Mat 2 2 [[1, 0], [0, 1]]) (Mat 2 2 [[2, 2], [- \<i>, \<i>]])
   = Inr (Mat 2 2 [[2, 2], [- \<i>, \<i>]])"
  by (simp add: matmul_def upt_0_2)

lemma save_modes_rot:
  "save_modes lib_rot (cfg_plain\<lparr>data_cutin := Some 50\<rparr>) atilde_rot (Some (DaskFrame 2 X_rot))
     True None
   = Inr modes_rot"
  by (simp add: save_modes_def input_array_def load_def lib_rot_def atilde_rot_def usv_rot_def
        matmul_rot_modes modes_rot_def map_mat_def eig_array_def)
     (simp add: X_rot_def column_def)

lemma data_decimate_rot_cutin:
  "data_decimate (cfg_plain\<lparr>data_cutin := Some 50\<rparr>) Array X_rot False False
   = Inr (Mat 2 2 [[0, - 2], [1, 0]])"
  by code_simp

theorem save_modes_amplitudes_witness:
  "save_modes lib_rot (cfg_plain\<lparr>data_cutin := Some 50\<rparr>) atilde_rot (Some (DaskFrame 2 X_rot))
       True None
     = Inr modes_rot
   \<and> column X_rot 0 = [2, 0]
   \<and> data_decimate (cfg_plain\<lparr>data_cutin := Some 50\<rparr>) Array X_rot False False
     = Inr (Mat 2 2 [[0, - 2], [1, 0]])
   \<and> file_b modes_rot = Some [1 / 2, 1 / 2]
   \<and> (\<exists>df phi bb.
           input_array (Some (DaskFrame 2 X_rot)) None = Inr df \<and> 0 < ncols df
         \<and> file_modes_real modes_rot = Some (map_mat Re phi)
         \<and> file_modes_imag modes_rot = Some (map_mat Im phi)
         \<and> lib_lstsq lib_rot phi (column df 0) = Inr bb
         \<and> file_b modes_rot = Some bb)"
proof -
  from save_modes_amplitudes[OF save_modes_rot]
  have "\<exists>df phi bb.
           input_array (Some (DaskFrame 2 X_rot)) None = Inr df \<and> 0 < ncols df
         \<and> file_modes_real modes_rot = Some (map_mat Re phi)
         \<and> file_modes_imag modes_rot = Some (map_mat Im phi)
         \<and> lib_lstsq lib_rot phi (column df 0) = Inr bb
         \<and> file_b modes_rot = Some bb"
    by blast
  moreover have "column X_rot 0 = [2, 0]" by (simp add: X_rot_def column_def)
  moreover have "file_b modes_rot = Some [1 / 2, 1 / 2]" by (simp add: modes_rot_def)
  ultimately show ?thesis using save_modes_rot data_decimate_rot_cutin by blast
qed





lemma dynamics_column_length:
  "dynamics_column bb ex = Inr c \<Longrightarrow> length c = length bb"
  by (auto simp: dynamics_column_def split: if_splits)

lemma column_set_column:
  assumes "length c = length (rows D)" "list_all (\<lambda>r. length r = m) (rows D)" "n < m"
  shows "column (set_column D n c) j = (if j = n then c else column D j)"
proof -
  have "\<forall>r\<in>set (rows D). n < length r" using assms by (auto simp: list_all_iff)
  then show ?thesis using assms(1)
    by (auto simp: column_def set_column_def list_all_iff intro!: nth_equalityI)
qed

lemma set_column_shape:
  assumes "length c = length (rows D)" "list_all (\<lambda>r. length r = m) (rows D)"
  shows "nrows (set_column D n c) = nrows D \<and> ncols (set_column D n c) = ncols D
       \<and> length (rows (set_column D n c)) = length (rows D)
       \<and> list_all (\<lambda>r. length r = m) (rows (set_column D n c))"
  using assms by (auto simp: set_column_def list_all_iff dest!: set_zip_leftD)

lemma fill_dynamics_enumerate:
  assumes "fill_dynamics bb d e D0 (enumerate n ns) = Inr D"
    and "length (rows D0) = length bb"
    and "list_all (\<lambda>r. length r = m) (rows D0)"
    and "n + length ns \<le> m"
  shows "nrows D = nrows D0 \<and> ncols D = ncols D0 \<and> length (rows D) = length bb
       \<and> list_all (\<lambda>r. length r = m) (rows D)
       \<and> (\<forall>i<length ns. dynamics_column bb (np_exp_omega_t d e (ns ! i)) = Inr (column D (n + i)))
       \<and> (\<forall>j<n. column D j = column D0 j)"
  using assms
proof (induction ns arbitrary: n D0)
  case Nil
  then show ?case by simp
next
  case (Cons t ts)
  from Cons.prems(1) obtain c where c: "dynamics_column bb (np_exp_omega_t d e t) = Inr c"
    and rest: "fill_dynamics bb d e (set_column D0 n c) (enumerate (Suc n) ts) = Inr D"
    by (auto split: sum.splits)
  have lc: "length c = length (rows D0)"
    using dynamics_column_length[OF c] Cons.prems(2) by simp
  note sh = set_column_shape[OF lc Cons.prems(3), of n]
  have n: "n < m" using Cons.prems(4) by simp
  have ih: "nrows D = nrows (set_column D0 n c) \<and> ncols D = ncols (set_column D0 n c)
       \<and> length (rows D) = length bb
       \<and> list_all (\<lambda>r. length r = m) (rows D)
       \<and> (\<forall>i<length ts. dynamics_column bb (np_exp_omega_t d e (ts ! i)) = Inr (column D (Suc n + i)))
       \<and> (\<forall>j<Suc n. column D j = column (set_column D0 n c) j)"
    using Cons.IH[OF rest] sh Cons.prems(2,4) by simp
  have cn: "column D n = c"
    using ih column_set_column[OF lc Cons.prems(3) n, of n] by simp
  have old: "\<forall>j<n. column D j = column D0 j"
    using ih column_set_column[OF lc Cons.prems(3) n] by simp
  have "\<forall>i<length (t # ts). dynamics_column bb (np_exp_omega_t d e ((t # ts) ! i))
           = Inr (column D (n + i))"
  proof (intro allI impI)
    fix i assume "i < length (t # ts)"
    then show "dynamics_column bb (np_exp_omega_t d e ((t # ts) ! i)) = Inr (column D (n + i))"
      using ih c cn by (cases i) auto
  qed
  then show ?case using ih sh old by simp
qed

lemma matmul_nan_shape:
  "matmul_nan A B = Inr P \<Longrightarrow> ncols A = nrows B \<and> nrows P = nrows A \<and> ncols P = ncols B
     \<and> length (rows P) = length (rows A) \<and> list_all (\<lambda>r. length r = ncols B) (rows P)"
  by (auto simp: matmul_nan_def list_all_iff split: if_splits)

lemma column_matmul_nan:
  assumes "matmul_nan A B = Inr P" "j < ncols B"
  shows "column P j =
           map (\<lambda>r. map_option sum_list
                       (those (map (\<lambda>k. map_option ((*) (r ! k)) (rows B ! k ! j)) [0..<ncols A])))
             (rows A)"
  using assms by (auto simp: matmul_nan_def column_def split: if_splits)

lemma column_map_mat:
  "list_all (\<lambda>r. j < length r) (rows M) \<Longrightarrow> column (map_mat f M) j = map f (column M j)"
  by (auto simp: column_def map_mat_def list_all_iff)

lemma those_map_Some_all: "those (map (\<lambda>k. Some (f k)) ks) = Some (map f ks)"
  by (induction ks) simp_all

lemma those_None: "None \<in> set xs \<Longrightarrow> those xs = None"
  by (induction xs) (auto split: option.splits)

lemma np_omega_length: "length (np_omega d e) = length (vals e)"
  by (simp add: np_omega_def)

lemma np_exp_omega_t_finite:
  assumes "np_omega d e = map Some w"
  shows "np_exp_omega_t d e n = map (\<lambda>w'. Some (exp (w' * complex_of_real (real_of_int n * d)))) w"
proof -
  have l: "length (vals e) = length w" using assms np_omega_length[of d e] by simp
  show ?thesis
    unfolding np_exp_omega_t_def assms using l
    by (intro nth_equalityI) simp_all
qed

lemma np_exp_omega_t_zero:
  assumes "k < length (vals e)" "np_omega d e ! k = None"
  shows "np_exp_omega_t d e 0 ! k = None"
  using assms by (simp add: np_exp_omega_t_def np_omega_length)

lemma np_exp_omega_t_length: "length (np_exp_omega_t d e n) = length (vals e)"
  by (simp add: np_exp_omega_t_def np_omega_length)


lemma save_prediction_var_Inr:
  assumes "save_prediction_var self st end fs = Inr (a, e')"
  shows "\<exists>d bb eigs pr pi T dynamics P.
      dt self = Some d \<and> file_b st = Some bb \<and> file_lambda st = Some eigs
    \<and> file_modes_real st = Some pr \<and> file_modes_imag st = Some pi \<and> same_shape pr pi
    \<and> e' = (case end of None \<Rightarrow> int (ncols pr) | Some e \<Rightarrow> e)
    \<and> np_arange_len e' fs = Inr T
    \<and> fill_dynamics bb d eigs (Mat (length bb) T (replicate (length bb) (replicate T (Some 0))))
          (enumerate 0 (map (\<lambda>i. int i * fs) [0..<T])) = Inr dynamics
    \<and> matmul_nan (zip_mat Complex pr pi) dynamics = Inr P
    \<and> a = st\<lparr>file_prediction := Some (map_mat (map_option Re) P)\<rparr>"
  using assms
  by (auto simp: save_prediction_var_def load_Inr Let_def zip_mat_def
           split: sum.splits if_splits prod.splits option.splits)

lemma save_prediction_var_spec:
  assumes "save_prediction_var self st end fs = Inr (a, e')"
  shows "\<exists>d bb eigs pr pi T P.
      dt self = Some d \<and> file_b st = Some bb \<and> file_lambda st = Some eigs
    \<and> file_modes_real st = Some pr \<and> file_modes_imag st = Some pi
    \<and> e' = (case end of None \<Rightarrow> int (ncols pr) | Some e \<Rightarrow> e)
    \<and> np_arange_len e' fs = Inr T
    \<and> a = st\<lparr>file_prediction := Some P\<rparr> \<and> nrows P = nrows pr \<and> ncols P = T
    \<and> ncols pr = length bb
    \<and> (\<forall>w. np_omega d eigs = map Some w \<and> length w = length bb \<longrightarrow>
          (\<forall>i<T. column P i =
             map (\<lambda>r. Some (Re (\<Sum>k\<leftarrow>[0..<length bb].
                      r ! k * (bb ! k * exp (w ! k * complex_of_real (real_of_int (int i * fs) * d))))))
               (rows (zip_mat Complex pr pi))))
    \<and> (list_ex Option.is_none (np_omega d eigs) \<and> length (vals eigs) = length bb \<and> 0 < T
         \<longrightarrow> column P 0 = map (\<lambda>r. None) (rows (zip_mat Complex pr pi)))"
proof -
  from save_prediction_var_Inr[OF assms]
  obtain d bb eigs pr pi T dynamics P where
      d: "dt self = Some d" and bb: "file_b st = Some bb" and eigs: "file_lambda st = Some eigs"
      and pr: "file_modes_real st = Some pr" and pi: "file_modes_imag st = Some pi"
      and e': "e' = (case end of None \<Rightarrow> int (ncols pr) | Some e \<Rightarrow> e)"
      and T: "np_arange_len e' fs = Inr T"
      and fill: "fill_dynamics bb d eigs (Mat (length bb) T (replicate (length bb) (replicate T (Some 0))))
          (enumerate 0 (map (\<lambda>i. int i * fs) [0..<T])) = Inr dynamics"
      and P: "matmul_nan (zip_mat Complex pr pi) dynamics = Inr P"
      and a: "a = st\<lparr>file_prediction := Some (map_mat (map_option Re) P)\<rparr>"
    by (elim exE conjE) (rule that, assumption+)
  let ?phi = "zip_mat Complex pr pi"
  let ?ns = "map (\<lambda>i. int i * fs) [0..<T]"
  let ?Q = "map_mat (map_option Re) P"
  have fd: "nrows dynamics = length bb" "ncols dynamics = T" "length (rows dynamics) = length bb"
      "list_all (\<lambda>r. length r = T) (rows dynamics)"
      "\<forall>i<T. dynamics_column bb (np_exp_omega_t d eigs (int i * fs)) = Inr (column dynamics i)"
    using fill_dynamics_enumerate[OF fill, of T] by (simp_all add: list_all_iff)
  note sh = matmul_nan_shape[OF P]
  have K: "ncols ?phi = length bb" using sh fd by simp
  have rowsP: "list_all (\<lambda>r. length r = T) (rows P)" using sh fd by simp
  have shape: "nrows ?Q = nrows pr" "ncols ?Q = T" "ncols pr = length bb"
    using sh fd by (simp_all add: map_mat_def zip_mat_def)
  have colQ: "column ?Q i = map (map_option Re) (column P i)" if "i < T" for i
    using rowsP that by (intro column_map_mat) (auto simp: list_all_iff)
  have colP: "column P i =
           map (\<lambda>r. map_option sum_list
                       (those (map (\<lambda>k. map_option ((*) (r ! k)) (column dynamics i ! k))
                                 [0..<length bb])))
             (rows ?phi)" if "i < T" for i
  proof -
    have "column P i =
           map (\<lambda>r. map_option sum_list
                       (those (map (\<lambda>k. map_option ((*) (r ! k)) (rows dynamics ! k ! i))
                                 [0..<ncols ?phi])))
             (rows ?phi)"
      using column_matmul_nan[OF P] that fd by simp
    moreover have "rows dynamics ! k ! i = column dynamics i ! k" if "k < length bb" for k
      using that fd by (simp add: column_def)
    then have "map (\<lambda>k. map_option ((*) (r ! k)) (rows dynamics ! k ! i)) [0..<length bb]
             = map (\<lambda>k. map_option ((*) (r ! k)) (column dynamics i ! k)) [0..<length bb]"
      for r :: "complex list"
      by (intro map_cong refl) simp
    ultimately show ?thesis unfolding K by (simp only:)
  qed
  have finite: "\<forall>i<T. column ?Q i =
             map (\<lambda>r. Some (Re (\<Sum>k\<leftarrow>[0..<length bb].
                      r ! k * (bb ! k * exp (w ! k * complex_of_real (real_of_int (int i * fs) * d))))))
               (rows ?phi)"
    if w: "np_omega d eigs = map Some w" and lw: "length w = length bb" for w
  proof (intro allI impI)
    fix i assume i: "i < T"
    let ?t = "complex_of_real (real_of_int (int i * fs) * d)"
    have ex: "np_exp_omega_t d eigs (int i * fs) = map (\<lambda>w'. Some (exp (w' * ?t))) w"
      using np_exp_omega_t_finite[OF w] by simp
    have "dynamics_column bb (np_exp_omega_t d eigs (int i * fs))
            = Inr (map (\<lambda>k. Some (bb ! k * exp (w ! k * ?t))) [0..<length bb])"
      unfolding ex dynamics_column_def using lw
      by (auto intro!: nth_equalityI)
    then have col: "column dynamics i = map (\<lambda>k. Some (bb ! k * exp (w ! k * ?t))) [0..<length bb]"
      using fd(5) i by simp
    have "map (\<lambda>k. map_option ((*) (r ! k)) (column dynamics i ! k)) [0..<length bb]
            = map (\<lambda>k. Some (r ! k * (bb ! k * exp (w ! k * ?t)))) [0..<length bb]"
      for r :: "complex list"
      unfolding col by (intro map_cong refl) simp
    then have "column P i =
        map (\<lambda>r. map_option sum_list
               (those (map (\<lambda>k. Some (r ! k * (bb ! k * exp (w ! k * ?t)))) [0..<length bb])))
          (rows ?phi)"
      unfolding colP[OF i] by (simp only:)
    then have "column P i = map (\<lambda>r. Some (\<Sum>k\<leftarrow>[0..<length bb]. r ! k * (bb ! k * exp (w ! k * ?t))))
                         (rows ?phi)"
      by (simp only: those_map_Some_all option.map)
    then show "column ?Q i =
             map (\<lambda>r. Some (Re (\<Sum>k\<leftarrow>[0..<length bb]. r ! k * (bb ! k * exp (w ! k * ?t)))))
               (rows ?phi)"
      using colQ[OF i] by simp
  qed
  have nan: "column ?Q 0 = map (\<lambda>r. None) (rows ?phi)"
    if ex: "list_ex Option.is_none (np_omega d eigs)" and l: "length (vals eigs) = length bb"
      and T0: "0 < T"
  proof -
    from ex obtain k where k: "k < length (vals eigs)" and none: "np_omega d eigs ! k = None"
      by (auto simp: list_ex_iff in_set_conv_nth np_omega_length Option.is_none_def)
    have z: "np_exp_omega_t d eigs (int 0 * fs) ! k = None"
      using np_exp_omega_t_zero[OF k none] by simp
    have dc: "dynamics_column bb (np_exp_omega_t d eigs (int 0 * fs)) = Inr (column dynamics 0)"
      using fd(5) T0 by blast
    have le: "length (np_exp_omega_t d eigs (int 0 * fs)) = length bb"
      using l by (simp add: np_exp_omega_t_length)
    have "column dynamics 0
            = map (\<lambda>(x, y). map_option ((*) x) y) (zip bb (np_exp_omega_t d eigs (int 0 * fs)))"
      using dc le by (simp add: dynamics_column_def)
    then have "column dynamics 0 ! k = map_option ((*) (bb ! k)) (np_exp_omega_t d eigs (int 0 * fs) ! k)"
      using k l le by simp
    then have "column dynamics 0 ! k = None"
      using z by simp
    then have "None \<in> set (map (\<lambda>k. map_option ((*) (r ! k)) (column dynamics 0 ! k)) [0..<length bb])"
      for r :: "complex list"
      using k l by (auto simp: image_iff intro!: bexI[of _ k])
    then have "column P 0 = map (\<lambda>r. None) (rows ?phi)"
      unfolding colP[OF T0] by (simp add: those_None)
    then show "column ?Q 0 = map (\<lambda>r. None) (rows ?phi)"
      using colQ[OF T0] by simp
  qed
  have finite': "\<forall>w. np_omega d eigs = map Some w \<and> length w = length bb \<longrightarrow>
          (\<forall>i<T. column ?Q i =
             map (\<lambda>r. Some (Re (\<Sum>k\<leftarrow>[0..<length bb].
                      r ! k * (bb ! k * exp (w ! k * complex_of_real (real_of_int (int i * fs) * d))))))
               (rows ?phi))"
    using finite by blast
  have nan': "list_ex Option.is_none (np_omega d eigs) \<and> length (vals eigs) = length bb \<and> 0 < T
         \<longrightarrow> column ?Q 0 = map (\<lambda>r. None) (rows ?phi)"
    using nan by blast
  show ?thesis
    apply (rule exI[of _ d], rule exI[of _ bb], rule exI[of _ eigs], rule exI[of _ pr])
    apply (rule exI[of _ pi], rule exI[of _ T], rule exI[of _ ?Q])
    using d bb eigs pr pi e' T a shape finite' nan' by (intro conjI) assumption+
qed

lemma save_prediction_others:
  "save_prediction self dir vs end fs = Inr dir' \<Longrightarrow> v \<notin> set vs \<Longrightarrow> dir' v = dir v"
proof (induction vs arbitrary: dir "end")
  case Nil
  then show ?case by simp
next
  case (Cons x vs)
  from Cons.prems(1) obtain a e' where
      "save_prediction self (dir(x := a)) vs (Some e') fs = Inr dir'"
    by (auto split: sum.splits prod.splits)
  from Cons.IH[OF this] Cons.prems(2) show ?case by simp
qed

lemma save_prediction_var_end:
  "save_prediction_var self st (Some e) fs = Inr (a, e') \<Longrightarrow> e' = e"
  by (drule save_prediction_var_Inr) auto

lemma save_prediction_Some:
  assumes "save_prediction self dir vs (Some e) fs = Inr dir'" "distinct vs" "v \<in> set vs"
  shows "\<exists>a. save_prediction_var self (dir v) (Some e) fs = Inr (a, e) \<and> dir' v = a"
  using assms
proof (induction vs arbitrary: dir)
  case Nil
  then show ?case by simp
next
  case (Cons x vs)
  from Cons.prems(1) obtain a e' where
      body: "save_prediction_var self (dir x) (Some e) fs = Inr (a, e')"
      and rest: "save_prediction self (dir(x := a)) vs (Some e') fs = Inr dir'"
    by (auto split: sum.splits prod.splits)
  have e': "e' = e" using body by (rule save_prediction_var_end)
  show ?case
  proof (cases "v = x")
    case True
    then have "v \<notin> set vs" using Cons.prems(2) by simp
    then have "dir' v = a" using save_prediction_others[OF rest] True by simp
    then show ?thesis using body e' True by simp
  next
    case False
    then have "v \<in> set vs" using Cons.prems(3) by simp
    from Cons.IH[OF rest[unfolded e']] Cons.prems(2) this False show ?thesis by simp
  qed
qed




















section \<open>Properties of the multiresolution run\<close>

lemma those_map_Some:
  "those (map f xs) = Some ys \<Longrightarrow>
   length ys = length xs \<and> (\<forall>i<length xs. f (xs ! i) = Some (ys ! i))"
proof (induction xs arbitrary: ys)
  case Nil
  then show ?case by simp
next
  case (Cons x xs)
  from Cons.prems obtain y ys' where y: "f x = Some y" and ys': "those (map f xs) = Some ys'"
    and ys: "ys = y # ys'"
    by (auto split: option.splits)
  from Cons.IH[OF ys'] y ys show ?case
    by (auto simp: nth_Cons split: nat.splits)
qed

lemma sum_list_all_eq:
  "\<forall>i<length xs. f (xs ! i) = (c::nat) \<Longrightarrow> sum_list (map f xs) = length xs * c"
proof (induction xs)
  case Nil
  then show ?case by simp
next
  case (Cons x xs)
  have "f x = c" using Cons.prems by auto
  moreover have "\<forall>i<length xs. f (xs ! i) = c" using Cons.prems by auto
  ultimately show ?case using Cons.IH by simp
qed

lemma np_arange_len_unit: "np_arange_len (int n) 1 = Inr T \<Longrightarrow> T = n"
  by (simp add: np_arange_len_def)

lemma finite_values_Some:
  assumes "finite_values m = Some p"
  shows "m = map_mat Some p \<and> ncols p = ncols m \<and> nrows p = nrows m"
proof -
  from assms have all: "list_all (list_all (\<lambda>x. \<not> Option.is_none x)) (rows m)"
    and p: "p = map_mat the m"
    by (auto simp: finite_values_def split: if_splits)
  have "map (map Some) (map (map the) (rows m)) = rows m"
    using all by (auto simp: list_all_iff Option.is_none_def intro!: map_idI)
  then have "map_mat Some (map_mat the m) = m"
    by (cases m) (simp add: map_mat_def)
  then show ?thesis using p by (simp add: map_mat_def)
qed

lemma save_prediction_segment:
  assumes "save_prediction self dir variables (Some (int n)) 1 = Inr dir'"
    and "distinct variables" "var \<in> set variables"
  shows "\<exists>P. dir' var = (dir var)\<lparr>file_prediction := Some P\<rparr> \<and> ncols P = n"
proof -
  from save_prediction_Some[OF assms] obtain a where
      body: "save_prediction_var self (dir var) (Some (int n)) 1 = Inr (a, int n)"
      and a: "dir' var = a"
    by blast
  from save_prediction_var_spec[OF body] obtain T P where
      "np_arange_len (int n) 1 = Inr T" "a = (dir var)\<lparr>file_prediction := Some P\<rparr>" "ncols P = T"
    by auto
  then show ?thesis using a np_arange_len_unit by blast
qed

lemma slow_filter_Inr:
  assumes "slow_filter self slice_size st = Inr st'"
  shows "\<exists>d eigs bb phi_real phi_imag.
      dt self = Some d \<and> d * real slice_size \<noteq> 0
    \<and> file_lambda st = Some eigs \<and> file_b st = Some bb
    \<and> file_modes_real st = Some phi_real \<and> file_modes_imag st = Some phi_imag
    \<and> st' = st\<lparr>file_b := Some (map (\<lambda>i. bb ! i) (slow_mask d slice_size eigs)),
                file_lambda := Some (Eigs (real_dtype eigs)
                                 (map (\<lambda>i. vals eigs ! i) (slow_mask d slice_size eigs))),
                file_modes_real := Some (take_cols (slow_mask d slice_size eigs) phi_real),
                file_modes_imag := Some (take_cols (slow_mask d slice_size eigs) phi_imag)\<rparr>"
  using assms
  by (auto simp: slow_filter_def load_Inr Let_def take_idx_def iloc_cols_def
           split: sum.splits if_splits prod.splits option.splits)

lemma set_slow_mask:
  "set (slow_mask d slice_size e) =
     {i. i < length (vals e) \<and>
         (\<exists>w. np_omega d e ! i = Some w \<and> cmod w < 1 / (d * real slice_size) * 2 * pi)}"
  by (auto simp: slow_mask_def split: option.splits)

lemma mr_segment_Inr:
  assumes "mr_segment lib self dir variables var df_i slice_size = Inr dir'"
  shows "\<exists>dir1 dir2 dir3 a.
      for_variables (\<lambda>a. svd_save_usv lib self a None True True (Some df_i)) dir variables
        = Inr dir1
    \<and> for_variables (\<lambda>a. save_Atilde self a None True (Some (to_dask_array df_i))) dir1 variables
        = Inr dir2
    \<and> for_variables (\<lambda>a. save_modes lib self a None True (Some (to_dask_array df_i))) dir2 variables
        = Inr dir3
    \<and> slow_filter self slice_size (dir3 var) = Inr a
    \<and> save_prediction self (dir3(var := a)) variables (Some (int slice_size)) 1 = Inr dir'"
  using assms by (auto simp: mr_segment_def split: sum.splits)

lemma mr_segment_prediction:
  assumes "mr_segment lib self dir variables var df_i slice_size = Inr dir'"
    and "distinct variables" "var \<in> set variables"
  shows "\<exists>P. file_prediction (dir' var) = Some P \<and> ncols P = slice_size"
proof -
  from mr_segment_Inr[OF assms(1)] obtain dir3 a where
    "save_prediction self (dir3(var := a)) variables (Some (int slice_size)) 1 = Inr dir'" by blast
  from save_prediction_segment[OF this assms(2,3)] show ?thesis by auto
qed

lemma mr_segments_spec:
  assumes "mr_segments lib self st variables var L ss (enumerate n segs) = Inr st'"
  shows "level_prediction st' = level_prediction st \<and> level_dirs st' = level_dirs st
       \<and> xy_pkl st' = xy_pkl st \<and> mr_prediction st' = mr_prediction st
       \<and> (\<forall>l j. l \<noteq> L \<or> j < n \<or> n + length segs \<le> j \<longrightarrow> segment st' (l, j) = segment st (l, j))
       \<and> (\<forall>i<length segs. mr_segment lib self (segment st (L, n + i)) variables var (segs ! i) ss
                              = Inr (segment st' (L, n + i)))"
  using assms
proof (induction segs arbitrary: n st)
  case Nil
  then show ?case by simp
next
  case (Cons s segs)
  from Cons.prems obtain a where
      a: "mr_segment lib self (segment st (L, n)) variables var s ss = Inr a"
    and rest: "mr_segments lib self (st\<lparr>segment := (segment st)((L, n) := a)\<rparr>) variables var L ss
                 (enumerate (Suc n) segs) = Inr st'"
    by (auto split: sum.splits)
  let ?st1 = "st\<lparr>segment := (segment st)((L, n) := a)\<rparr>"
  note ih = Cons.IH[OF rest]
  have frame: "\<forall>l j. l \<noteq> L \<or> j < n \<or> n + length (s # segs) \<le> j
                 \<longrightarrow> segment st' (l, j) = segment st (l, j)"
  proof (intro allI impI)
    fix l j :: nat
    assume k: "l \<noteq> L \<or> j < n \<or> n + length (s # segs) \<le> j"
    then have "l \<noteq> L \<or> j < Suc n \<or> Suc n + length segs \<le> j" by auto
    then have "segment st' (l, j) = segment ?st1 (l, j)" using ih by blast
    moreover have "(l, j) \<noteq> (L, n)" using k by auto
    ultimately show "segment st' (l, j) = segment st (l, j)" by auto
  qed
  have here: "segment st' (L, n) = a" using ih by simp
  have segs: "\<forall>i<length (s # segs).
                mr_segment lib self (segment st (L, n + i)) variables var ((s # segs) ! i) ss
                  = Inr (segment st' (L, n + i))"
  proof (intro allI impI)
    fix i assume i: "i < length (s # segs)"
    show "mr_segment lib self (segment st (L, n + i)) variables var ((s # segs) ! i) ss
            = Inr (segment st' (L, n + i))"
    proof (cases i)
      case 0
      then show ?thesis using a here by simp
    next
      case (Suc j)
      then have "mr_segment lib self (segment ?st1 (L, Suc n + j)) variables var (segs ! j) ss
                   = Inr (segment st' (L, Suc n + j))"
        using ih i by simp
      then show ?thesis using Suc by simp
    qed
  qed
  show ?case using ih frame segs by simp
qed

lemma length_split_segments: "length (split_segments df L) = 2 ^ L"
  by (simp add: split_segments_def Let_def)

lemma ncols_hconcat: "ncols (hconcat ms) = sum_list (map ncols ms)"
  by (simp add: hconcat_def)

lemma ncols_zip_mat: "ncols (zip_mat f A B) = ncols A"
  by (simp add: zip_mat_def)

lemma mr_level_spec:
  assumes "mr_level lib self st variables var df0 L = Inr st'"
    and "distinct variables" "var \<in> set variables"
  shows "\<exists>df preds.
       (if 0 < L then level_prediction st var (L - 1) = Some df else df = df0)
     \<and> (\<forall>i<2 ^ L. mr_segment lib self (segment st (L, i)) variables var
                       (DaskFrame (npartitions df) (split_segments (to_dask_array df) L ! i))
                       (ncols (to_dask_array df) div 2 ^ L) = Inr (segment st' (L, i)))
     \<and> (\<forall>l j. l \<noteq> L \<longrightarrow> segment st' (l, j) = segment st (l, j))
     \<and> length preds = 2 ^ L
     \<and> (\<forall>i<2 ^ L. file_prediction (segment st' (L, i) var) = Some (map_mat Some (preds ! i)))
     \<and> 2 ^ L * (ncols (to_dask_array df) div 2 ^ L) = ncols (to_dask_array df)
     \<and> level_prediction st' =
         (level_prediction st)
           (var := (level_prediction st var)
              (L := Some (DaskFrame (npartitions df)
                            (zip_mat (-) (to_dask_array df) (hconcat preds)))))
     \<and> level_dirs st' = level_dirs st \<and> xy_pkl st' = xy_pkl st
     \<and> mr_prediction st' = mr_prediction st"
proof -
  from assms(1) obtain df st1 files preds where
      df: "(if 0 < L then load (level_prediction st var (L - 1)) else Inr df0) = Inr df"
      and segs: "mr_segments lib self st variables var L (ncols (to_dask_array df) div 2 ^ L)
                   (enumerate 0 (map (DaskFrame (npartitions df))
                                   (split_segments (to_dask_array df) L))) = Inr st1"
      and files: "those (map (\<lambda>i. file_prediction (segment st1 (L, i) var)) [0..<2 ^ L])
                    = Some files"
      and preds: "those (map finite_values files) = Some preds"
      and nc: "ncols (hconcat preds) = ncols (to_dask_array df)"
      and st': "st' = st1\<lparr>level_prediction :=
                          (level_prediction st1)
                            (var := (level_prediction st1 var)
                               (L := Some (DaskFrame (npartitions df)
                                             (zip_mat (-) (to_dask_array df) (hconcat preds)))))\<rparr>"
    by (auto simp: mr_level_def Let_def split: sum.splits if_splits option.splits)
  let ?ss = "ncols (to_dask_array df) div 2 ^ L"
  note sp = mr_segments_spec[OF segs]
  have inp: "if 0 < L then level_prediction st var (L - 1) = Some df else df = df0"
    using df by (auto simp: load_Inr split: if_splits)
  have run: "\<forall>i<2 ^ L. mr_segment lib self (segment st (L, i)) variables var
                       (DaskFrame (npartitions df) (split_segments (to_dask_array df) L ! i))
                       ?ss = Inr (segment st1 (L, i))"
    using sp by (simp add: length_split_segments)
  from those_map_Some[OF files]
  have lf: "length files = 2 ^ L"
    and fi: "\<forall>i<2 ^ L. file_prediction (segment st1 (L, i) var) = Some (files ! i)"
    by simp_all
  from those_map_Some[OF preds]
  have lp: "length preds = 2 ^ L"
    and fv: "\<forall>i<2 ^ L. finite_values (files ! i) = Some (preds ! i)"
    using lf by simp_all
  have pi: "\<forall>i<2 ^ L. file_prediction (segment st1 (L, i) var) = Some (map_mat Some (preds ! i))"
    using fi fv finite_values_Some by metis
  have "\<forall>i<length preds. ncols (preds ! i) = ?ss"
  proof (intro allI impI)
    fix i assume "i < length preds"
    then have i: "i < 2 ^ L" using lp by simp
    from mr_segment_prediction[OF run[rule_format, OF i] assms(2,3)] pi i
    show "ncols (preds ! i) = ?ss" by (auto simp: map_mat_def)
  qed
  then have "sum_list (map ncols preds) = length preds * ?ss"
    by (rule sum_list_all_eq)
  then have exact: "2 ^ L * ?ss = ncols (to_dask_array df)"
    using nc lp by (simp add: ncols_hconcat)
  have frame: "\<forall>l j. l \<noteq> L \<longrightarrow> segment st' (l, j) = segment st (l, j)"
    using sp st' by simp
  show ?thesis
    using inp run pi lp exact frame sp st' by (intro exI[of _ df] exI[of _ preds]) simp
qed

lemma level_run_segment_cong:
  assumes "level_run lib self variables var st1 st' df0 L inp preds"
    and "\<forall>j. segment st1 (L, j) = segment st (L, j)"
  shows "level_run lib self variables var st st' df0 L inp preds"
proof -
  have eq: "\<And>j. segment st1 (L, j) = segment st (L, j)" using assms(2) by simp
  show ?thesis using assms(1) unfolding level_run_def eq .
qed

lemma mr_levels_spec:
  assumes "mr_levels lib self st variables var df0 [a..<b] = Inr st'"
    and "0 < a \<longrightarrow> (\<exists>R. level_prediction st var (a - 1) = Some R
                          \<and> npartitions R = npartitions df0
                          \<and> ncols (to_dask_array R) = ncols (to_dask_array df0))"
    and "distinct variables" "var \<in> set variables"
  shows "(\<forall>L. a \<le> L \<and> L < b \<longrightarrow>
            (\<exists>inp preds. level_run lib self variables var st st' df0 L inp preds))
       \<and> (\<forall>L. L < a \<longrightarrow> level_prediction st' var L = level_prediction st var L)
       \<and> (\<forall>v. v \<noteq> var \<longrightarrow> level_prediction st' v = level_prediction st v)
       \<and> (\<forall>l j. l < a \<or> b \<le> l \<longrightarrow> segment st' (l, j) = segment st (l, j))
       \<and> level_dirs st' = level_dirs st \<and> xy_pkl st' = xy_pkl st
       \<and> mr_prediction st' = mr_prediction st"
  using assms(1,2)
proof (induction "b - a" arbitrary: a st)
  case 0
  then have "b \<le> a" by simp
  then have e: "[a..<b] = []" by simp
  have "st' = st" using "0.prems"(1) unfolding e by simp
  then show ?case using \<open>b \<le> a\<close> by auto
next
  case (Suc n)
  then have ab: "a < b" and n: "n = b - Suc a" by linarith+
  then have upt: "[a..<b] = a # [Suc a..<b]" by (simp add: upt_conv_Cons)
  from Suc.prems(1) obtain st1 where
      lvl: "mr_level lib self st variables var df0 a = Inr st1"
      and rest: "mr_levels lib self st1 variables var df0 [Suc a..<b] = Inr st'"
    unfolding upt by (auto split: sum.splits)
  from mr_level_spec[OF lvl assms(3,4)] obtain df preds where
      inp: "if 0 < a then level_prediction st var (a - 1) = Some df else df = df0"
      and run: "\<forall>i<2 ^ a. mr_segment lib self (segment st (a, i)) variables var
                       (DaskFrame (npartitions df) (split_segments (to_dask_array df) a ! i))
                       (ncols (to_dask_array df) div 2 ^ a) = Inr (segment st1 (a, i))"
      and frame1: "\<forall>l j. l \<noteq> a \<longrightarrow> segment st1 (l, j) = segment st (l, j)"
      and lp: "length preds = 2 ^ a"
      and pi: "\<forall>i<2 ^ a. file_prediction (segment st1 (a, i) var)
                           = Some (map_mat Some (preds ! i))"
      and exact: "2 ^ a * (ncols (to_dask_array df) div 2 ^ a) = ncols (to_dask_array df)"
      and res: "level_prediction st1 =
         (level_prediction st)
           (var := (level_prediction st var)
              (a := Some (DaskFrame (npartitions df)
                            (zip_mat (-) (to_dask_array df) (hconcat preds)))))"
      and other: "level_dirs st1 = level_dirs st" "xy_pkl st1 = xy_pkl st"
                 "mr_prediction st1 = mr_prediction st"
    by (elim exE conjE) (rule that, assumption+)
  have nc: "ncols (to_dask_array df) = ncols (to_dask_array df0)"
    and np: "npartitions df = npartitions df0"
    using inp Suc.prems(2) by (auto split: if_splits)
  have pre: "0 < Suc a \<longrightarrow> (\<exists>R. level_prediction st1 var (Suc a - 1) = Some R
                          \<and> npartitions R = npartitions df0
                          \<and> ncols (to_dask_array R) = ncols (to_dask_array df0))"
    using res nc np by (simp add: ncols_zip_mat)
  note ih = Suc.hyps(1)[OF n rest pre]
  have keep_lp: "\<forall>L. L < Suc a \<longrightarrow> level_prediction st' var L = level_prediction st1 var L"
    and keep_v: "\<forall>v. v \<noteq> var \<longrightarrow> level_prediction st' v = level_prediction st1 v"
    and keep_seg: "\<forall>l j. l < Suc a \<or> b \<le> l \<longrightarrow> segment st' (l, j) = segment st1 (l, j)"
    using ih by blast+
  have here: "level_run lib self variables var st st' df0 a df preds"
    unfolding level_run_def
  proof (intro conjI)
    show "if 0 < a then level_prediction st' var (a - 1) = Some df else df = df0"
      using inp keep_lp res by (auto split: if_splits)
    show "npartitions df = npartitions df0" by (rule np)
    show "ncols (to_dask_array df) = ncols (to_dask_array df0)" by (rule nc)
    show "2 ^ a * (ncols (to_dask_array df) div 2 ^ a) = ncols (to_dask_array df)" by (rule exact)
    show "list_all (\<lambda>i. mr_segment lib self (segment st (a, i)) variables var
                         (DaskFrame (npartitions df) (split_segments (to_dask_array df) a ! i))
                         (ncols (to_dask_array df) div 2 ^ a) = Inr (segment st' (a, i)))
            [0..<2 ^ a]"
      using run keep_seg by (simp add: list_all_iff)
    show "length preds = 2 ^ a" by (rule lp)
    show "list_all (\<lambda>i. file_prediction (segment st' (a, i) var)
                          = Some (map_mat Some (preds ! i))) [0..<2 ^ a]"
      using pi keep_seg by (simp add: list_all_iff)
    show "level_prediction st' var a
            = Some (DaskFrame (npartitions df) (zip_mat (-) (to_dask_array df) (hconcat preds)))"
      using keep_lp res by simp
  qed
  have levels: "\<forall>L. a \<le> L \<and> L < b \<longrightarrow>
                  (\<exists>inp preds. level_run lib self variables var st st' df0 L inp preds)"
  proof (intro allI impI)
    fix L assume L: "a \<le> L \<and> L < b"
    show "\<exists>inp preds. level_run lib self variables var st st' df0 L inp preds"
    proof (cases "L = a")
      case True
      then show ?thesis using here by blast
    next
      case False
      then have "Suc a \<le> L \<and> L < b" using L by simp
      then obtain inp' preds' where "level_run lib self variables var st1 st' df0 L inp' preds'"
        using ih by blast
      moreover have "\<forall>j. segment st1 (L, j) = segment st (L, j)"
        using frame1 False by simp
      ultimately have "level_run lib self variables var st st' df0 L inp' preds'"
        by (rule level_run_segment_cong)
      then show ?thesis by blast
    qed
  qed
  have lp_frame: "\<forall>L. L < a \<longrightarrow> level_prediction st' var L = level_prediction st var L"
    using keep_lp res by simp
  have v_frame: "\<forall>v. v \<noteq> var \<longrightarrow> level_prediction st' v = level_prediction st v"
    using keep_v res by simp
  have seg_frame: "\<forall>l j. l < a \<or> b \<le> l \<longrightarrow> segment st' (l, j) = segment st (l, j)"
  proof (intro allI impI)
    fix l j assume l: "l < a \<or> b \<le> l"
    then have "segment st' (l, j) = segment st1 (l, j)" using keep_seg by auto
    moreover have "l \<noteq> a" using l ab by auto
    ultimately show "segment st' (l, j) = segment st (l, j)" using frame1 by simp
  qed
  show ?case using levels lp_frame v_frame seg_frame ih other by simp
qed

lemma multires_var_run:
  assumes "multires_var lib self st parquet parquet_xy variables var levels end = Inr st'"
    and "distinct variables" "var \<in> set variables"
  shows "\<exists>df e. parquet var = Some df \<and> end = Some e
       \<and> (\<forall>L<levels. \<exists>inp preds.
             level_run lib self variables var st st'
               (DaskFrame (npartitions df) (truncate_end (to_dask_array df) levels e)) L inp preds)
       \<and> (\<forall>v. v \<noteq> var \<longrightarrow> level_prediction st' v = level_prediction st v)
       \<and> level_dirs st' = level_dirs st @ [0..<levels]
       \<and> xy_pkl st' = (xy_pkl st \<or> (0 < levels \<and> parquet_xy))"
proof -
  from assms(1) obtain df e where df: "parquet var = Some df" and e: "end = Some e"
    and run: "mr_levels lib self
            (st\<lparr>level_dirs := level_dirs st @ [0..<levels],
                 xy_pkl := (xy_pkl st \<or> (0 < levels \<and> parquet_xy))\<rparr>)
            variables var
            (DaskFrame (npartitions df) (truncate_end (to_dask_array df) levels e))
            [0..<levels] = Inr st'"
    by (auto simp: multires_var_def load_Inr split: sum.splits option.splits)
  let ?st0 = "st\<lparr>level_dirs := level_dirs st @ [0..<levels],
                 xy_pkl := (xy_pkl st \<or> (0 < levels \<and> parquet_xy))\<rparr>"
  let ?df0 = "DaskFrame (npartitions df) (truncate_end (to_dask_array df) levels e)"
  have sp: "(\<forall>L. 0 \<le> L \<and> L < levels \<longrightarrow>
               (\<exists>inp preds. level_run lib self variables var ?st0 st' ?df0 L inp preds))
       \<and> (\<forall>L. L < 0 \<longrightarrow> level_prediction st' var L = level_prediction ?st0 var L)
       \<and> (\<forall>v. v \<noteq> var \<longrightarrow> level_prediction st' v = level_prediction ?st0 v)
       \<and> (\<forall>l j. l < 0 \<or> levels \<le> l \<longrightarrow> segment st' (l, j) = segment ?st0 (l, j))
       \<and> level_dirs st' = level_dirs ?st0 \<and> xy_pkl st' = xy_pkl ?st0
       \<and> mr_prediction st' = mr_prediction ?st0"
    by (rule mr_levels_spec[OF run _ assms(2,3)]) simp
  have "\<forall>L<levels. \<exists>inp preds. level_run lib self variables var st st' ?df0 L inp preds"
  proof (intro allI impI)
    fix L assume "L < levels"
    then have "\<exists>inp preds. level_run lib self variables var ?st0 st' ?df0 L inp preds"
      using sp by blast
    then obtain inp preds where
      "level_run lib self variables var ?st0 st' ?df0 L inp preds"
      by blast
    then have "level_run lib self variables var st st' ?df0 L inp preds"
      by (rule level_run_segment_cong) simp
    then show "\<exists>inp preds. level_run lib self variables var st st' ?df0 L inp preds"
      by blast
  qed
  moreover have "\<forall>v. v \<noteq> var \<longrightarrow> level_prediction st' v = level_prediction st v"
    using sp by simp
  moreover have "level_dirs st' = level_dirs st @ [0..<levels]"
    using sp by simp
  moreover have "xy_pkl st' = (xy_pkl st \<or> (0 < levels \<and> parquet_xy))"
    using sp by simp
  ultimately show ?thesis using df e by blast
qed

lemma multires_loop_others:
  assumes "multires_loop lib self st parquet parquet_xy variables rest levels end = Inr st'"
    and "distinct variables" "set rest \<subseteq> set variables" "v \<notin> set rest"
  shows "level_prediction st' v = level_prediction st v"
  using assms(1,3,4)
proof (induction rest arbitrary: st)
  case Nil
  then show ?case by simp
next
  case (Cons x rest)
  from Cons.prems(1) obtain st1 where
      one: "multires_var lib self st parquet parquet_xy variables x levels end = Inr st1"
      and more: "multires_loop lib self st1 parquet parquet_xy variables rest levels end = Inr st'"
    by (auto split: sum.splits)
  have x: "x \<in> set variables" using Cons.prems(2) by simp
  have "v \<noteq> x" using Cons.prems(3) by auto
  then have "level_prediction st1 v = level_prediction st v"
    using multires_var_run[OF one assms(2) x] by blast
  moreover have "level_prediction st' v = level_prediction st1 v"
    using Cons.IH[OF more] Cons.prems(2,3) by simp
  ultimately show ?case by simp
qed

lemma multires_loop_spec:
  assumes "multires_loop lib self st parquet parquet_xy variables rest levels end = Inr st'"
    and "distinct variables" "set rest \<subseteq> set variables" "distinct rest" "var \<in> set rest"
  shows "\<exists>sa sb. multires_var lib self sa parquet parquet_xy variables var levels end = Inr sb
          \<and> level_prediction st' var = level_prediction sb var
          \<and> (var = hd rest \<longrightarrow> sa = st) \<and> (var = last rest \<longrightarrow> sb = st')"
  using assms(1,3,4,5)
proof (induction rest arbitrary: st)
  case Nil
  then show ?case by simp
next
  case (Cons x rest)
  from Cons.prems(1) obtain st1 where
      one: "multires_var lib self st parquet parquet_xy variables x levels end = Inr st1"
      and more: "multires_loop lib self st1 parquet parquet_xy variables rest levels end = Inr st'"
    by (auto split: sum.splits)
  have sub: "set rest \<subseteq> set variables" and dr: "distinct rest" and xr: "x \<notin> set rest"
    using Cons.prems(2,3) by simp_all
  show ?case
  proof (cases "var = x")
    case True
    have keep: "level_prediction st' var = level_prediction st1 var"
      using multires_loop_others[OF more assms(2) sub, of var] xr True by blast
    have run: "multires_var lib self st parquet parquet_xy variables var levels end = Inr st1"
      using one True by blast
    have lst: "var = last (x # rest) \<longrightarrow> st1 = st'"
    proof
      assume l: "var = last (x # rest)"
      have "rest = []"
      proof (rule ccontr)
        assume ne: "rest \<noteq> []"
        then have "last (x # rest) = last rest" by simp
        then have "x \<in> set rest" using l True ne last_in_set by metis
        then show False using xr by blast
      qed
      then show "st1 = st'" using more by simp
    qed
    have hd: "var = hd (x # rest) \<longrightarrow> st = st" by blast
    show ?thesis
      by (intro exI[of _ st] exI[of _ st1] conjI run keep hd lst)
  next
    case False
    then have v: "var \<in> set rest" using Cons.prems(4) by simp
    from Cons.IH[OF more sub dr v] obtain sa sb where
        run: "multires_var lib self sa parquet parquet_xy variables var levels end = Inr sb"
        and lp: "level_prediction st' var = level_prediction sb var"
        and lst: "var = last rest \<longrightarrow> sb = st'"
      by (elim exE conjE) (rule that, assumption+)
    have "rest \<noteq> []" using v by auto
    then have "last (x # rest) = last rest" by simp
    then have lst': "var = last (x # rest) \<longrightarrow> sb = st'" using lst by simp
    have hd: "var = hd (x # rest) \<longrightarrow> sa = st" using False by simp
    show ?thesis
      by (intro exI[of _ sa] exI[of _ sb] conjI run lp hd lst')
  qed
qed

lemma level_run_D:
  assumes "level_run lib self variables var st st' df0 L inp preds"
  shows "if 0 < L then level_prediction st' var (L - 1) = Some inp else inp = df0"
    and "npartitions inp = npartitions df0"
    and "ncols (to_dask_array inp) = ncols (to_dask_array df0)"
    and "2 ^ L * (ncols (to_dask_array inp) div 2 ^ L) = ncols (to_dask_array inp)"
    and "\<And>i. i < 2 ^ L \<Longrightarrow>
           mr_segment lib self (segment st (L, i)) variables var
             (DaskFrame (npartitions inp) (split_segments (to_dask_array inp) L ! i))
             (ncols (to_dask_array inp) div 2 ^ L) = Inr (segment st' (L, i))"
    and "length preds = 2 ^ L"
    and "\<And>i. i < 2 ^ L \<Longrightarrow>
           file_prediction (segment st' (L, i) var) = Some (map_mat Some (preds ! i))"
    and "level_prediction st' var L
           = Some (DaskFrame (npartitions inp) (zip_mat (-) (to_dask_array inp) (hconcat preds)))"
  using assms unfolding level_run_def list_all_iff by auto

lemma py_bound_int: "py_bound n (int k) = min k n"
  by (simp add: py_bound_def)

lemma split_segments_nth:
  assumes "2 ^ L * (ncols inp div 2 ^ L) = ncols inp" "i < 2 ^ L"
  shows "split_segments inp L ! i =
           take_cols [i * (ncols inp div 2 ^ L)..<(i + 1) * (ncols inp div 2 ^ L)] inp"
proof -
  let ?ss = "ncols inp div 2 ^ L"
  have "(i + 1) * ?ss \<le> 2 ^ L * ?ss" using assms(2) by (intro mult_right_mono) simp_all
  then have b: "(i + 1) * ?ss \<le> ncols inp" using assms(1) by simp
  then have a: "i * ?ss \<le> ncols inp" by simp
  have "split_segments inp L ! i =
          take_cols (slice_idx (ncols inp) (Some (int (i * ?ss))) (Some (int ((i + 1) * ?ss)))) inp"
    using assms(2) by (simp add: split_segments_def Let_def)
  moreover have "slice_idx (ncols inp) (Some (int (i * ?ss))) (Some (int ((i + 1) * ?ss)))
                 = [i * ?ss..<(i + 1) * ?ss]"
    using a b unfolding slice_idx_def option.case py_bound_int by (simp add: min_def)
  ultimately show ?thesis by simp
qed

lemma ncols_truncate_end:
  "ncols (truncate_end df levels e) = py_bound (ncols df) (e - e mod 2 ^ levels)"
  by (simp add: truncate_end_def ncols_take_cols slice_idx_def)

lemma ncols_truncate_end_multiple:
  assumes "0 \<le> e" "e \<le> int (ncols df)"
  shows "int (ncols (truncate_end df levels e)) = e - e mod 2 ^ levels"
proof -
  define x where "x = e - e mod 2 ^ levels"
  have m0: "0 \<le> e mod 2 ^ levels" by simp
  have m1: "e mod 2 ^ levels \<le> e" using assms(1) by (simp add: zmod_le_nonneg_dividend)
  have "0 \<le> x" unfolding x_def using m1 by linarith
  moreover have "x \<le> int (ncols df)" unfolding x_def using m0 assms(2) by linarith
  ultimately have "0 \<le> x" "x \<le> int (ncols df)" by simp_all
  then have "int (py_bound (ncols df) x) = x" unfolding py_bound_def min_def by auto
  then show ?thesis by (simp add: ncols_truncate_end x_def)
qed

lemma ncols_truncate_end_all:
  assumes "int (ncols df) \<le> e - e mod 2 ^ levels"
  shows "ncols (truncate_end df levels e) = ncols df"
proof -
  have "ncols df \<le> nat (e - e mod 2 ^ levels)" using assms by linarith
  moreover have "\<not> e - e mod 2 ^ levels < 0" using assms by linarith
  ultimately show ?thesis by (simp add: ncols_truncate_end py_bound_def)
qed

lemma slow_mask_filter:
  "slow_mask d slice_size e =
     filter (\<lambda>j. \<exists>w. np_omega d e ! j = Some w \<and> cmod w < 1 / (d * real slice_size) * 2 * pi)
       [0..<length (vals e)]"
  unfolding slow_mask_def by (rule filter_cong) (auto split: option.splits)


end
